theory Spec2Isabelle
  imports Complex_Main "HOL-Library.Char_ord" "HOL-Library.List_Lexorder"
    "HOL-Library.Product_Lexorder" "HOL-Library.Sublist"
begin

section \<open>The creation queue (persistence/repositories.py, QueueRepository)\<close>

text \<open>
  A UUID is modelled by the 128-bit number it denotes.  The canonical text of a UUID is
  fixed-width lower-case hexadecimal, so comparing \<open>str(a) < str(b)\<close> is comparing the
  numbers.
\<close>

type_synonym uuid = nat

text \<open>
  A row of \<open>creation_queue\<close> (tables.py, QueueEntryTable): the person, the priority and the
  \<open>added_at\<close> time stamp, which the table fills from the clock when the row is created.  A
  table is the list of its rows in the order they were inserted, and a \<open>select\<close> without
  \<open>order_by\<close> returns them in that order.
\<close>

record queue_entry =
  person_id :: uuid
  priority :: int
  added_at :: nat

type_synonym queue = "queue_entry list"

text \<open>\<open>existing.priority = priority\<close> on the first row found for the person.\<close>

fun set_priority :: "uuid \<Rightarrow> int \<Rightarrow> queue \<Rightarrow> queue" where
  "set_priority pid p [] = []"
| "set_priority pid p (e # es) =
     (if person_id e = pid then e\<lparr>priority := p\<rparr> # es else e # set_priority pid p es)"

text \<open>
  \<open>QueueRepository.enqueue\<close>; \<open>now\<close> is the clock value the new row would get.  The row
  the source returns is not used by any caller and is left out.
\<close>

definition enqueue :: "nat \<Rightarrow> uuid \<Rightarrow> int \<Rightarrow> queue \<Rightarrow> queue" where
  "enqueue now pid prio q =
     (case find (\<lambda>e. person_id e = pid) q of
        Some existing \<Rightarrow>
          (if prio > priority existing then set_priority pid prio q else q)
      | None \<Rightarrow> q @ [\<lparr>person_id = pid, priority = prio, added_at = now\<rparr>])"

text \<open>
  \<open>order_by(col(priority).desc(), added_at)\<close>: the sort key of a row, smaller first.  Rows
  with the same key stay in table order.
\<close>

definition queue_order :: "queue_entry \<Rightarrow> int \<times> nat" where
  "queue_order e = (- priority e, added_at e)"

text \<open>\<open>QueueRepository.dequeue\<close>: the id returned (or None) and the queue left.\<close>

definition dequeue :: "queue \<Rightarrow> uuid option \<times> queue" where
  "dequeue q =
     (case sort_key queue_order q of
        [] \<Rightarrow> (None, q)
      | entry # _ \<Rightarrow> (Some (person_id entry), remove1 entry q))"

text \<open>A history of queue calls, started on the empty table.\<close>

datatype queue_op = Enqueue nat uuid int | Dequeue

fun queue_step :: "queue \<Rightarrow> queue_op \<Rightarrow> queue" where
  "queue_step q (Enqueue now pid prio) = enqueue now pid prio q"
| "queue_step q Dequeue = snd (dequeue q)"

definition run_queue :: "queue_op list \<Rightarrow> queue" where
  "run_queue ops = foldl queue_step [] ops"

text \<open>The priority with which a person is queued, if queued.\<close>

definition queued_priority :: "queue \<Rightarrow> uuid \<Rightarrow> int option" where
  "queued_priority q pid = map_option priority (find (\<lambda>e. person_id e = pid) q)"

section \<open>Python strings and the regular expressions of the name parser\<close>

text \<open>
  A Python \<open>str\<close> whose code points are all below 256 is modelled by the list of its code
  points, one \<open>char\<close> each (so \<open>CHR 0xE9\<close> is the accented e of the word "nee").  The functions of
  \<open>str\<close> and \<open>re\<close> that the source calls are written out for these strings as the
  library documents them.
\<close>

text \<open>\<open>str.isspace\<close> on one character, which is also what \<open>\s\<close> matches.\<close>

definition py_isspace :: "char \<Rightarrow> bool" where
  "py_isspace c =
     (let n = (of_char c :: nat)
      in (9 \<le> n \<and> n \<le> 13) \<or> (28 \<le> n \<and> n \<le> 32) \<or> n = 133 \<or> n = 160)"

text \<open>
  \<open>str.lower\<close> on one character: A-Z and the accented capitals 0xC0-0xDE but 0xD7 move
  up by 32.  Bit 5 of these codes is clear, so adding 32 is setting that bit.
\<close>

fun add32 :: "char \<Rightarrow> char" where
  "add32 (Char b0 b1 b2 b3 b4 b5 b6 b7) = Char b0 b1 b2 b3 b4 True b6 b7"

definition py_lower :: "char \<Rightarrow> char" where
  "py_lower c =
     (let n = (of_char c :: nat)
      in if (65 \<le> n \<and> n \<le> 90) \<or> (192 \<le> n \<and> n \<le> 222 \<and> n \<noteq> 215)
         then add32 c else c)"

definition lower :: "string \<Rightarrow> string" where
  "lower s = map py_lower s"

text \<open>What \<open>\w\<close> matches: letters, digits and numeric characters, and the underscore.\<close>

definition py_isword :: "char \<Rightarrow> bool" where
  "py_isword c =
     (let n = (of_char c :: nat)
      in (48 \<le> n \<and> n \<le> 57) \<or> (65 \<le> n \<and> n \<le> 90) \<or> n = 95 \<or> (97 \<le> n \<and> n \<le> 122) \<or>
         n = 170 \<or> n = 178 \<or> n = 179 \<or> n = 181 \<or> n = 185 \<or> n = 186 \<or>
         (188 \<le> n \<and> n \<le> 190) \<or> (192 \<le> n \<and> n \<noteq> 215 \<and> n \<noteq> 247))"

definition strip :: "string \<Rightarrow> string" where
  "strip s = rev (dropWhile py_isspace (rev (dropWhile py_isspace s)))"

text \<open>\<open>str.rstrip(".")\<close>.\<close>

definition rstrip_dot :: "string \<Rightarrow> string" where
  "rstrip_dot s = rev (dropWhile (\<lambda>c. c = CHR ''.'') (rev s))"

text \<open>
  \<open>str.split()\<close> without arguments: the maximal runs of characters that are not white
  space.  \<open>cur\<close> is the run being read, latest character first.
\<close>

fun split_acc :: "string \<Rightarrow> string \<Rightarrow> string list" where
  "split_acc cur [] = (if cur = [] then [] else [rev cur])"
| "split_acc cur (c # cs) =
     (if py_isspace c
      then (if cur = [] then split_acc [] cs else rev cur # split_acc [] cs)
      else split_acc (c # cur) cs)"

definition split :: "string \<Rightarrow> string list" where
  "split s = split_acc [] s"

text \<open>
  The regular expressions of \<open>parse_name\<close>, all compiled with \<open>re.IGNORECASE\<close>.
  \<open>Lits s\<close> is a run of literal characters, \<open>Plus P\<close> and \<open>Star P\<close> are the greedy \<open>+\<close> and
  \<open>*\<close> on a character class, \<open>Opt\<close> is the greedy \<open>?\<close>, \<open>Group\<close> is the capturing group
  (each pattern has one) and \<open>WordB\<close> is \<open>\b\<close>.
\<close>

datatype rx =
    Lits string
  | Plus "char \<Rightarrow> bool"
  | Star "char \<Rightarrow> bool"
  | Opt rx
  | Seq rx rx
  | Alt rx rx
  | Group rx
  | WordB

text \<open>
  A position of the backtracking matcher: the character before it (None at the start of
  the string), the text from it on, and what the group has captured.
\<close>

type_synonym mstate = "char option \<times> string \<times> string option"

text \<open>The positions after a greedy run of class characters, longest run first.\<close>

fun star_states :: "(char \<Rightarrow> bool) \<Rightarrow> char option \<Rightarrow> string \<Rightarrow> string option \<Rightarrow> mstate list" where
  "star_states P prev [] g = [(prev, [], g)]"
| "star_states P prev (c # cs) g =
     (if P c then star_states P (Some c) cs g @ [(prev, c # cs, g)] else [(prev, c # cs, g)])"

definition is_word_opt :: "char option \<Rightarrow> bool" where
  "is_word_opt c = (case c of None \<Rightarrow> False | Some x \<Rightarrow> py_isword x)"

definition next_char :: "string \<Rightarrow> char option" where
  "next_char s = (case s of [] \<Rightarrow> None | c # _ \<Rightarrow> Some c)"

text \<open>
  All the ways a pattern matches at a position, in the order in which the backtracking
  matcher of \<open>re\<close> tries them: the first is the match it reports.
\<close>

fun rx_match :: "rx \<Rightarrow> mstate \<Rightarrow> mstate list" where
  "rx_match (Lits s) (prev, rest, g) =
     (if lower (take (length s) rest) = lower s
      then [(if s = [] then prev else Some (last (take (length s) rest)), drop (length s) rest, g)]
      else [])"
| "rx_match (Plus P) (prev, rest, g) =
     (case rest of
        [] \<Rightarrow> []
      | c # cs \<Rightarrow> if P c then star_states P (Some c) cs g else [])"
| "rx_match (Star P) (prev, rest, g) = star_states P prev rest g"
| "rx_match (Opt r) st = rx_match r st @ [st]"
| "rx_match (Seq a b) st = concat (map (rx_match b) (rx_match a st))"
| "rx_match (Alt a b) st = rx_match a st @ rx_match b st"
| "rx_match (Group r) (prev, rest, g) =
     map (\<lambda>(prev', rest', _). (prev', rest', Some (take (length rest - length rest') rest)))
       (rx_match r (prev, rest, g))"
| "rx_match WordB (prev, rest, g) =
     (if is_word_opt prev \<noteq> is_word_opt (next_char rest) then [(prev, rest, g)] else [])"

definition first_match :: "rx \<Rightarrow> char option \<Rightarrow> string \<Rightarrow> mstate option" where
  "first_match r prev s = (case rx_match r (prev, s, None) of [] \<Rightarrow> None | m # _ \<Rightarrow> Some m)"

text \<open>The text of group 1 of a match.\<close>

definition group_text :: "string option \<Rightarrow> string" where
  "group_text g = (case g of None \<Rightarrow> [] | Some t \<Rightarrow> t)"

text \<open>\<open>re.search\<close>: the match at the leftmost position that has one; its group.\<close>

fun rx_search_from :: "rx \<Rightarrow> char option \<Rightarrow> string \<Rightarrow> mstate option" where
  "rx_search_from r prev [] = first_match r prev []"
| "rx_search_from r prev (c # cs) =
     (case first_match r prev (c # cs) of
        None \<Rightarrow> rx_search_from r (Some c) cs
      | Some m \<Rightarrow> Some m)"

definition rx_search :: "rx \<Rightarrow> string \<Rightarrow> string option" where
  "rx_search r s =
     (case rx_search_from r None s of None \<Rightarrow> None | Some (_, _, g) \<Rightarrow> Some (group_text g))"

text \<open>
  The scan of \<open>re.sub\<close> and \<open>re.findall\<close> over the non-overlapping matches, left to right:
  the characters outside the matches (Inl) and the group of each match (Inr).  \<open>skip\<close>
  counts the characters still inside the match found last.  A match that consumes nothing
  is passed over with the next character; no pattern of the source has one.
\<close>

fun rx_scan :: "rx \<Rightarrow> char option \<Rightarrow> nat \<Rightarrow> string \<Rightarrow> (char + string) list" where
  "rx_scan r prev skip [] =
     (case first_match r prev [] of
        None \<Rightarrow> []
      | Some (_, _, g) \<Rightarrow> if skip = 0 then [Inr (group_text g)] else [])"
| "rx_scan r prev skip (c # cs) =
     (if 0 < skip then rx_scan r (Some c) (skip - 1) cs
      else case first_match r prev (c # cs) of
             None \<Rightarrow> Inl c # rx_scan r (Some c) 0 cs
           | Some (_, rest', g) \<Rightarrow>
               (if length rest' < length (c # cs)
                then Inr (group_text g) # rx_scan r (Some c) (length cs - length rest') cs
                else Inr (group_text g) # Inl c # rx_scan r (Some c) 0 cs))"

text \<open>\<open>re.sub(pattern, "", s)\<close> and \<open>re.findall(pattern, s)\<close>.\<close>

definition rx_sub_empty :: "rx \<Rightarrow> string \<Rightarrow> string" where
  "rx_sub_empty r s = concat (map (\<lambda>p. case p of Inl c \<Rightarrow> [c] | Inr _ \<Rightarrow> []) (rx_scan r None 0 s))"

definition rx_findall :: "rx \<Rightarrow> string \<Rightarrow> string list" where
  "rx_findall r s = concat (map (\<lambda>p. case p of Inl _ \<Rightarrow> [] | Inr g \<Rightarrow> [g]) (rx_scan r None 0 s))"

text \<open>\<open>re.sub(r"\s+", " ", s)\<close>: every run of white space becomes one blank.\<close>

fun collapse_from :: "bool \<Rightarrow> string \<Rightarrow> string" where
  "collapse_from in_run [] = []"
| "collapse_from in_run (c # cs) =
     (if py_isspace c
      then (if in_run then collapse_from True cs else CHR '' '' # collapse_from True cs)
      else c # collapse_from False cs)"

definition collapse_ws :: "string \<Rightarrow> string" where
  "collapse_ws s = collapse_from False s"

section \<open>The name parser (agents/dedup_agent.py)\<close>

record parsed_name =
  given_name :: string
  middle_names :: "string list"
  surname :: string
  maiden_name :: "string option"
  suffixes :: "string list option"

text \<open>\<open>ParsedName.all_surnames\<close>; an empty maiden name is falsy and is not added.\<close>

definition all_surnames :: "parsed_name \<Rightarrow> string set" where
  "all_surnames p =
     (case maiden_name p of
        None \<Rightarrow> {lower (surname p)}
      | Some m \<Rightarrow> if m \<noteq> [] then {lower (surname p), lower m} else {lower (surname p)})"

text \<open>The class \<open>[^)]\<close>.\<close>

definition not_rparen :: "char \<Rightarrow> bool" where
  "not_rparen c = (c \<noteq> CHR '')'')"

text \<open>
  \<open>nee_patterns\<close>, in the order of the source: the three parenthesised forms with
  "nee", "born" and "maiden name", then the bare "nee" followed by one word.
\<close>

definition nee_patterns :: "rx list" where
  "nee_patterns =
     [Seq (Lits (''(n'' @ [CHR 0xE9] @ ''e'')) (Seq (Plus py_isspace)
        (Seq (Group (Plus not_rparen)) (Lits '')''))),
      Seq (Lits ''(born'') (Seq (Plus py_isspace)
        (Seq (Group (Plus not_rparen)) (Lits '')''))),
      Seq (Lits ''(maiden'') (Seq (Plus py_isspace) (Seq (Lits ''name'')
        (Seq (Opt (Lits '':'')) (Seq (Star py_isspace)
          (Seq (Group (Plus not_rparen)) (Lits '')'')))))),
      Seq (Lits (''n'' @ [CHR 0xE9] @ ''e'')) (Seq (Plus py_isspace) (Group (Plus py_isword)))]"

text \<open>\<open>suffix_pattern\<close>: Jr, Sr (with an optional dot), III, IV, II, 2nd, 3rd as whole words.\<close>

definition suffix_pattern :: rx where
  "suffix_pattern =
     Seq WordB (Seq (Group
       (Alt (Seq (Lits ''Jr'') (Opt (Lits ''.'')))
       (Alt (Seq (Lits ''Sr'') (Opt (Lits ''.'')))
       (Alt (Lits ''III'') (Alt (Lits ''IV'') (Alt (Lits ''II'')
       (Alt (Lits ''2nd'') (Lits ''3rd''))))))))
     WordB)"

text \<open>
  The loop over \<open>nee_patterns\<close>: the first pattern found anywhere in the name gives the
  maiden name and is cut out of the name wherever it occurs.
\<close>

fun extract_maiden :: "rx list \<Rightarrow> string \<Rightarrow> string option \<times> string" where
  "extract_maiden [] name = (None, name)"
| "extract_maiden (pattern # ps) name =
     (case rx_search pattern name of
        Some g \<Rightarrow> (Some (strip g), strip (rx_sub_empty pattern name))
      | None \<Rightarrow> extract_maiden ps name)"

definition extract_suffixes :: "string \<Rightarrow> string list \<times> string" where
  "extract_suffixes name =
     (let suffix_matches = rx_findall suffix_pattern name
      in if suffix_matches \<noteq> []
         then (map rstrip_dot suffix_matches, strip (rx_sub_empty suffix_pattern name))
         else ([], name))"

text \<open>
  \<open>parts\<close>: what is left of the name after the maiden name and the suffixes were taken
  out and the white space was collapsed, split into tokens.
\<close>

definition name_parts :: "string \<Rightarrow> string list" where
  "name_parts full_name =
     split (strip (collapse_ws
       (snd (extract_suffixes (snd (extract_maiden nee_patterns (strip full_name)))))))"

text \<open>
  \<open>parse_name\<close>.  The source reads \<open>parts[0]\<close>, \<open>parts[1]\<close>, \<open>parts[-1]\<close> and
  \<open>parts[1:-1]\<close> only under the length tests that put them in range, so the case analysis
  on the list is the whole function; \<open>suffixes or None\<close> turns the empty list into None.
\<close>

definition parse_name :: "string \<Rightarrow> parsed_name" where
  "parse_name full_name =
     (let name = strip full_name;
          (maiden, name) = extract_maiden nee_patterns name;
          (sfx, name) = extract_suffixes name;
          name = strip (collapse_ws name);
          parts = split name;
          sfx_or_none = (if sfx = [] then None else Some sfx)
      in if length parts = 0 then
           \<lparr>given_name = ''Unknown'', middle_names = [], surname = ''Unknown'',
            maiden_name = maiden, suffixes = sfx_or_none\<rparr>
         else if length parts = 1 then
           \<lparr>given_name = parts ! 0, middle_names = [], surname = ''Unknown'',
            maiden_name = maiden, suffixes = sfx_or_none\<rparr>
         else if length parts = 2 then
           \<lparr>given_name = parts ! 0, middle_names = [], surname = parts ! 1,
            maiden_name = maiden, suffixes = sfx_or_none\<rparr>
         else
           \<lparr>given_name = parts ! 0, middle_names = butlast (tl parts), surname = last parts,
            maiden_name = maiden, suffixes = sfx_or_none\<rparr>)"

section \<open>The heuristic match scorer (agents/dedup_agent.py)\<close>

subsection \<open>Python floats\<close>

text \<open>
  A Python float is an IEEE 754 double.  It is modelled by the rational number it denotes,
  and an operation of the scorer by the exact operation followed by the rounding to the
  nearest double, ties to the even significand.  The scores stay between 0 and 1.1, so that
  neither an infinity nor a NaN occurs, and no sum is a negative zero.
\<close>

text \<open>\<open>binade r\<close> is the whole part of the binary logarithm of a positive \<open>r\<close>.\<close>

function binade :: "rat \<Rightarrow> int" where
  "binade r =
     (if r \<le> 0 then 0
      else if 2 \<le> r then binade (r / 2) + 1
      else if r < 1 then binade (r * 2) - 1
      else 0)"
  by pat_completeness auto

text \<open>It terminates: halving a number from 1 on lowers its whole part.\<close>

lemma floor_half_less: "1 \<le> x \<Longrightarrow> \<lfloor>x / 2\<rfloor> < \<lfloor>x\<rfloor>" for x :: rat
proof (cases "2 \<le> x")
  case True
  then have "x / 2 \<le> x - 1" by simp
  then have "\<lfloor>x / 2\<rfloor> \<le> \<lfloor>x - 1\<rfloor>" by (rule floor_mono)
  then show ?thesis by simp
next
  case False
  assume "1 \<le> x"
  with False have "\<lfloor>x / 2\<rfloor> = 0" "\<lfloor>x\<rfloor> = 1" by (simp_all add: floor_unique)
  then show ?thesis by simp
qed

termination binade
proof (relation "measure (\<lambda>r. if 1 \<le> r then nat \<lfloor>r\<rfloor> else nat \<lfloor>1 / r\<rfloor> + 1)")
  show "wf (measure (\<lambda>r::rat. if 1 \<le> r then nat \<lfloor>r\<rfloor> else nat \<lfloor>1 / r\<rfloor> + 1))" by simp
next
  fix r :: rat
  assume "\<not> r \<le> 0" "2 \<le> r"
  then have "1 \<le> r" "1 \<le> r / 2" by simp_all
  moreover from floor_half_less [OF \<open>1 \<le> r\<close>] have "nat \<lfloor>r / 2\<rfloor> < nat \<lfloor>r\<rfloor>"
    using \<open>1 \<le> r\<close> by (simp add: nat_less_iff)
  ultimately show "(r / 2, r) \<in> measure (\<lambda>r. if 1 \<le> r then nat \<lfloor>r\<rfloor> else nat \<lfloor>1 / r\<rfloor> + 1)"
    by simp
next
  fix r :: rat
  assume p: "\<not> r \<le> 0" and "\<not> 2 \<le> r" and l: "r < 1"
  show "(r * 2, r) \<in> measure (\<lambda>r. if 1 \<le> r then nat \<lfloor>r\<rfloor> else nat \<lfloor>1 / r\<rfloor> + 1)"
  proof (cases "1 \<le> r * 2")
    case True
    with l have "\<lfloor>r * 2\<rfloor> = 1" by (simp add: floor_unique)
    moreover from p l have "1 \<le> 1 / r" by (simp add: le_divide_eq)
    then have "1 \<le> \<lfloor>1 / r\<rfloor>" by simp
    ultimately show ?thesis using True l by simp
  next
    case False
    from p l have "1 \<le> 1 / r" by (simp add: le_divide_eq)
    from floor_half_less [OF this] have "\<lfloor>1 / (r * 2)\<rfloor> < \<lfloor>1 / r\<rfloor>" by (simp add: field_simps)
    moreover from \<open>1 \<le> 1 / r\<close> have "1 \<le> \<lfloor>1 / r\<rfloor>" by simp
    ultimately show ?thesis using False l by simp
  qed
qed

declare binade.simps [simp del]

definition pow2 :: "int \<Rightarrow> rat" where
  "pow2 k = (if 0 \<le> k then 2 ^ nat k else 1 / 2 ^ nat (- k))"

definition round_half_even :: "rat \<Rightarrow> int" where
  "round_half_even q =
     (let f = \<lfloor>q\<rfloor>
      in if q - of_int f < 1 / 2 then f
         else if 1 / 2 < q - of_int f then f + 1
         else if even f then f else f + 1)"

text \<open>
  The double nearest to \<open>r\<close>: 53 significant bits, the exponent not below that of the
  smallest normal number.
\<close>

definition round_double :: "rat \<Rightarrow> rat" where
  "round_double r =
     (let e = max (binade \<bar>r\<bar>) (- 1022);
          ulp = pow2 (e - 52)
      in of_int (round_half_even (r / ulp)) * ulp)"

text \<open>A float literal of the source, and the float addition \<open>+\<close> (also in \<open>+=\<close>).\<close>

definition float_literal :: "rat \<Rightarrow> rat" where
  "float_literal r = round_double r"

definition float_add :: "rat \<Rightarrow> rat \<Rightarrow> rat" where
  "float_add a b = round_double (a + b)"

subsection \<open>The scorer\<close>

text \<open>The truth value of \<open>parsed.suffixes\<close>: not None and not empty.\<close>

definition has_suffixes :: "parsed_name \<Rightarrow> bool" where
  "has_suffixes p = (case suffixes p of None \<Rightarrow> False | Some l \<Rightarrow> l \<noteq> [])"

definition suffix_set :: "parsed_name \<Rightarrow> string set" where
  "suffix_set p = (case suffixes p of None \<Rightarrow> {} | Some l \<Rightarrow> set l)"

text \<open>The lower-cased given name, middle names and surname of a parsed name.\<close>

definition all_parts :: "parsed_name \<Rightarrow> string set" where
  "all_parts p = set (map lower ([given_name p] @ middle_names p @ [surname p]))"

text \<open>\<open>if new_birth_year and candidate_birth_year\<close>: a year is falsy when None or 0.\<close>

definition year_truthy :: "int option \<Rightarrow> bool" where
  "year_truthy y = (case y of None \<Rightarrow> False | Some v \<Rightarrow> v \<noteq> 0)"

text \<open>The variable \<open>name_score\<close> after the comparison of the names.\<close>

definition name_score :: "parsed_name \<Rightarrow> parsed_name \<Rightarrow> rat" where
  "name_score new_parsed candidate_parsed =
     (let name_score = float_literal 0.0;
          new_given = lower (given_name new_parsed);
          candidate_given = lower (given_name candidate_parsed)
      in if new_given = candidate_given then
           (let name_score = float_add name_score (float_literal 0.25);
                name_score =
                  (if all_surnames new_parsed \<inter> all_surnames candidate_parsed \<noteq> {}
                   then float_add name_score (float_literal 0.25)
                   else if lower (surname new_parsed) \<in> all_parts candidate_parsed
                   then float_add name_score (float_literal 0.2)
                   else if lower (surname candidate_parsed) \<in> all_parts new_parsed
                   then float_add name_score (float_literal 0.2)
                   else name_score);
                new_middle_set = set (map lower (middle_names new_parsed));
                candidate_middle_set = set (map lower (middle_names candidate_parsed))
            in if new_middle_set \<noteq> {} \<and> candidate_middle_set \<noteq> {} \<and>
                  new_middle_set \<inter> candidate_middle_set \<noteq> {}
               then float_add name_score (float_literal 0.1)
               else name_score)
         else name_score)"

text \<open>The variable \<open>year_score\<close> after the comparison of the birth years.\<close>

definition year_score :: "int option \<Rightarrow> int option \<Rightarrow> rat" where
  "year_score new_birth_year candidate_birth_year =
     (let year_score = float_literal 0.0
      in if year_truthy new_birth_year \<and> year_truthy candidate_birth_year then
           (let year_diff = \<bar>the new_birth_year - the candidate_birth_year\<bar>
            in if year_diff = 0 then float_literal 0.5
               else if year_diff \<le> 2 then float_literal 0.45
               else if year_diff \<le> 5 then float_literal 0.3
               else year_score)
         else year_score)"

definition heuristic_match_score :: "string \<Rightarrow> int option \<Rightarrow> string \<Rightarrow> int option \<Rightarrow> rat" where
  "heuristic_match_score new_name new_birth_year candidate_name candidate_birth_year =
     (let new_parsed = parse_name new_name;
          candidate_parsed = parse_name candidate_name
      in if has_suffixes new_parsed \<and> has_suffixes candidate_parsed \<and>
            suffix_set new_parsed \<noteq> suffix_set candidate_parsed
         then float_literal 0.0
         else max (float_literal 0.0)
                (min (float_add (name_score new_parsed candidate_parsed)
                        (year_score new_birth_year candidate_birth_year))
                   (float_literal 1.0)))"

subsection \<open>The scorer as the specification words it\<close>

text \<open>
  The reference definition of section 4.2 of the specification, rule by rule and in exact
  arithmetic: the name contribution, the year contribution, and the clamped sum behind the
  suffix test.  The rules are "case-insensitive throughout", so the suffix sets are compared
  in lower case.
\<close>

definition spec_name_contribution :: "parsed_name \<Rightarrow> parsed_name \<Rightarrow> rat" where
  "spec_name_contribution a b =
     (if lower (given_name a) \<noteq> lower (given_name b) then 0
      else 0.25
         + (if all_surnames a \<inter> all_surnames b \<noteq> {} then 0.25
            else if lower (surname a) \<in> all_parts b \<or> lower (surname b) \<in> all_parts a then 0.20
            else 0)
         + (if middle_names a \<noteq> [] \<and> middle_names b \<noteq> [] \<and>
               set (map lower (middle_names a)) \<inter> set (map lower (middle_names b)) \<noteq> {}
            then 0.10 else 0))"

text \<open>The year contribution for two optional years, as the claim states it.\<close>

definition spec_year_contribution :: "int option \<Rightarrow> int option \<Rightarrow> rat" where
  "spec_year_contribution y1 y2 =
     (case (y1, y2) of
        (Some a, Some b) \<Rightarrow>
          if a = b then 0.5
          else if \<bar>a - b\<bar> \<le> 2 then 0.45
          else if \<bar>a - b\<bar> \<le> 5 then 0.3
          else 0
      | _ \<Rightarrow> 0)"

definition spec_score :: "string \<Rightarrow> int option \<Rightarrow> string \<Rightarrow> int option \<Rightarrow> rat" where
  "spec_score n1 y1 n2 y2 =
     (if has_suffixes (parse_name n1) \<and> has_suffixes (parse_name n2) \<and>
         lower ` suffix_set (parse_name n1) \<noteq> lower ` suffix_set (parse_name n2)
      then 0
      else max 0 (min 1
             (spec_name_contribution (parse_name n1) (parse_name n2)
              + spec_year_contribution y1 y2)))"

text \<open>A year of 0 counted as no year.\<close>

definition known_year :: "int option \<Rightarrow> int option" where
  "known_year y = (case y of None \<Rightarrow> None | Some v \<Rightarrow> if v = 0 then None else Some v)"

text \<open>
  Two names whose suffixes differ in the case of their letters only, as "JR" and "Jr" do.
\<close>

definition suffixes_differ_in_case_only :: "string \<Rightarrow> string \<Rightarrow> bool" where
  "suffixes_differ_in_case_only n1 n2 =
     (has_suffixes (parse_name n1) \<and> has_suffixes (parse_name n2) \<and>
      suffix_set (parse_name n1) \<noteq> suffix_set (parse_name n2) \<and>
      lower ` suffix_set (parse_name n1) = lower ` suffix_set (parse_name n2))"

text \<open>
  The middle-name bonus of the reference definition applies and the years are 3 to 5 apart:
  the three sums 0.35 + 0.3, 0.6 + 0.3 and 0.55 + 0.3, which the float addition rounds to a
  neighbour of the double nearest to the exact sum.
\<close>

definition rounds_to_neighbour :: "string \<Rightarrow> int option \<Rightarrow> string \<Rightarrow> int option \<Rightarrow> bool" where
  "rounds_to_neighbour n1 y1 n2 y2 =
     (spec_year_contribution y1 y2 = 0.3 \<and>
      spec_name_contribution (parse_name n1) (parse_name n2) \<in> {0.35, 0.55, 0.6})"

section \<open>The domain model (domain/enums.py, domain/models.py)\<close>

datatype person_status = PENDING | QUEUED | PROCESSING | COMPLETE

datatype gender = MALE | FEMALE | UNKNOWN

datatype relationship_type =
  PARENT | CHILD | SPOUSE | SIBLING | GRANDPARENT | GRANDCHILD
  | UNCLE | AUNT | COUSIN | NIECE | NEPHEW | OTHER

text \<open>A \<open>datetime.date\<close>; it exists only for the years 1 to 9999.\<close>

record py_date =
  d_year :: int
  d_month :: nat
  d_day :: nat

text \<open>\<open>PersonReference\<close>.\<close>

record person_reference =
  r_name :: string
  r_relationship :: relationship_type
  approximate_birth_year :: "int option"
  r_gender :: gender
  r_context :: "string option"

text \<open>
  \<open>ExtractedEvent\<close>; the event type is kept as the text of the enumeration member, which
  is how it appears in the messages.
\<close>

record extracted_event =
  event_type :: string
  event_date :: "py_date option"
  event_year :: "int option"
  e_location :: "string option"
  e_description :: string

text \<open>\<open>ExtractedData\<close>.\<close>

record extracted_data =
  x_given_name :: string
  x_surname :: string
  x_maiden_name :: "string option"
  x_gender :: gender
  x_birth_date :: "py_date option"
  x_birth_place :: "string option"
  x_birth_year :: "int option"
  x_death_date :: "py_date option"
  x_death_place :: "string option"
  x_death_year :: "int option"
  x_parents :: "person_reference list"
  x_children :: "person_reference list"
  x_spouses :: "person_reference list"
  x_siblings :: "person_reference list"
  x_other_relatives :: "person_reference list"
  x_events :: "extracted_event list"
  x_notes :: "string list"

section \<open>The validator (services/validation.py)\<close>

text \<open>\<open>str(n)\<close> for an integer: decimal digits, with a minus sign when negative.\<close>

fun str_nat :: "nat \<Rightarrow> string" where
  "str_nat n =
     (if n < 10 then [''0123456789'' ! n]
      else str_nat (n div 10) @ [''0123456789'' ! (n mod 10)])"

declare str_nat.simps [simp del]

definition str_int :: "int \<Rightarrow> string" where
  "str_int i = (if i < 0 then ''-'' @ str_nat (nat (- i)) else str_nat (nat i))"

record validation_result =
  is_valid :: bool
  errors :: "string list"
  warnings :: "string list"

text \<open>
  A \<open>Validator\<close> after \<open>__init__\<close>: the three limits, each the argument or, when that is
  None or 0, the setting.
\<close>

record validator =
  min_parent_age :: int
  max_parent_age :: int
  max_lifespan :: int

text \<open>\<open>Validator._get_year\<close>; a date is always truthy.\<close>

definition get_year :: "py_date option \<Rightarrow> int option \<Rightarrow> int option" where
  "get_year date_val year_val =
     (case date_val of Some d \<Rightarrow> Some (d_year d) | None \<Rightarrow> year_val)"

text \<open>
  \<open>Validator._validate_parent_child\<close>.  The two lists the source appends to are passed
  in and returned.
\<close>

definition validate_parent_child ::
  "validator \<Rightarrow> string \<Rightarrow> int option \<Rightarrow> int option \<Rightarrow> int option \<Rightarrow>
   string list \<times> string list \<Rightarrow> string list \<times> string list" where
  "validate_parent_child v parent_name parent_birth_year child_birth_year parent_death_year ew =
     (case ew of (errs, warns) \<Rightarrow>
      if parent_birth_year = None \<or> child_birth_year = None then (errs, warns)
      else
        (let parent_age_at_birth = the child_birth_year - the parent_birth_year;
             (errs, warns) =
               (if parent_age_at_birth < min_parent_age v then
                  (errs @ [''Parent '' @ parent_name @ '' too young at child'' @ [CHR 0x27]
                     @ ''s birth: age '' @ str_int parent_age_at_birth
                     @ '' (min: '' @ str_int (min_parent_age v) @ '')''], warns)
                else if parent_age_at_birth > max_parent_age v + 20 then
                  (errs, warns @ [''Parent '' @ parent_name @ '' very old at child'' @ [CHR 0x27]
                     @ ''s birth: age '' @ str_int parent_age_at_birth])
                else (errs, warns))
         in case parent_death_year of
              None \<Rightarrow> (errs, warns)
            | Some pd \<Rightarrow>
                if the child_birth_year > pd + 1 then
                  (errs @ [''Child born in '' @ str_int (the child_birth_year) @ '', but parent ''
                     @ parent_name @ '' died in '' @ str_int pd], warns)
                else (errs, warns)))"

text \<open>The lifespan test at the head of \<open>validate_extracted_data\<close>.\<close>

definition validate_lifespan ::
  "validator \<Rightarrow> int option \<Rightarrow> int option \<Rightarrow> string list \<times> string list" where
  "validate_lifespan v birth_year death_year =
     (if year_truthy birth_year \<and> year_truthy death_year then
        (let lifespan = the death_year - the birth_year
         in if lifespan < 0 then
              ([''Death year ('' @ str_int (the death_year) @ '') before birth year (''
                  @ str_int (the birth_year) @ '')''], [])
            else if lifespan > max_lifespan v then
              ([], [''Unusually long lifespan: '' @ str_int lifespan @ '' years''])
            else if lifespan < 1 then
              ([], [''Very short lifespan: '' @ str_int lifespan @ '' years''])
            else ([], []))
      else ([], []))"

text \<open>The body of the loop over the spouses: a warning, or nothing.\<close>

definition validate_spouse :: "int option \<Rightarrow> person_reference \<Rightarrow> string list" where
  "validate_spouse birth_year spouse =
     (if year_truthy birth_year \<and> year_truthy (approximate_birth_year spouse) then
        (let age_gap = \<bar>the birth_year - the (approximate_birth_year spouse)\<bar>
         in if age_gap > 30 then
              [''Large age gap with spouse '' @ r_name spouse @ '': '' @ str_int age_gap @ '' years'']
            else [])
      else [])"

text \<open>The body of the loop over the events: the errors it appends.\<close>

definition validate_event :: "int option \<Rightarrow> int option \<Rightarrow> extracted_event \<Rightarrow> string list" where
  "validate_event birth_year death_year event =
     (let ev_year = get_year (event_date event) (event_year event)
      in if year_truthy ev_year \<and> year_truthy birth_year then
           (if the ev_year < the birth_year then
              [''Event '' @ [CHR 0x27] @ event_type event @ [CHR 0x27] @ '' in ''
                 @ str_int (the ev_year) @ '' before birth ('' @ str_int (the birth_year) @ '')'']
            else [])
           @ (if year_truthy death_year \<and> the ev_year > the death_year then
                [''Event '' @ [CHR 0x27] @ event_type event @ [CHR 0x27] @ '' in ''
                   @ str_int (the ev_year) @ '' after death ('' @ str_int (the death_year) @ '')'']
              else [])
         else [])"

text \<open>\<open>Validator.validate_extracted_data\<close>.\<close>

definition validate_extracted_data :: "validator \<Rightarrow> extracted_data \<Rightarrow> validation_result" where
  "validate_extracted_data v data =
     (let birth_year = get_year (x_birth_date data) (x_birth_year data);
          death_year = get_year (x_death_date data) (x_death_year data);
          ew = validate_lifespan v birth_year death_year;
          ew = foldl (\<lambda>ew parent.
                  validate_parent_child v (r_name parent) (approximate_birth_year parent)
                    birth_year None ew)
                ew (x_parents data);
          ew = foldl (\<lambda>ew child.
                  validate_parent_child v (x_given_name data @ '' '' @ x_surname data)
                    birth_year (approximate_birth_year child) death_year ew)
                ew (x_children data);
          warns = snd ew @ concat (map (validate_spouse birth_year) (x_spouses data));
          errs = fst ew @ concat (map (validate_event birth_year death_year) (x_events data))
      in \<lparr>is_valid = (length errs = 0), errors = errs, warnings = warns\<rparr>)"

text \<open>
  \<open>Validator.validate_person_reference\<close>; \<open>current_year\<close> is \<open>date.today().year\<close>.  The
  subject's birth year, which the source accepts, is not used by it.
\<close>

definition validate_person_reference :: "int \<Rightarrow> person_reference \<Rightarrow> validation_result" where
  "validate_person_reference current_year reference =
     (let errs = (if r_name reference = [] \<or> strip (r_name reference) = []
                  then [''Person reference has empty name''] else []);
          errs = errs @
            (if year_truthy (approximate_birth_year reference) \<and>
                the (approximate_birth_year reference) > current_year
             then [''Birth year '' @ str_int (the (approximate_birth_year reference))
                     @ '' is in the future'']
             else []);
          warns =
            (if year_truthy (approximate_birth_year reference) \<and>
                the (approximate_birth_year reference) < 1500
             then [''Very old birth year: '' @ str_int (the (approximate_birth_year reference))]
             else [])
      in \<lparr>is_valid = (length errs = 0), errors = errs, warnings = warns\<rparr>)"

section \<open>The validate-and-correct loop (services/genealogy_service.py)\<close>

text \<open>
  The Correction Oracle, \<open>CorrectionAgent.correct\<close>: from the biography, the current data
  and the error strings to the corrected data.  It is an external model, so it carries a
  state of its own (\<open>'o\<close>) and may answer differently each time.
\<close>

type_synonym 'o correction_oracle =
  "'o \<Rightarrow> string \<Rightarrow> extracted_data \<Rightarrow> string list \<Rightarrow> extracted_data \<times> 'o"

text \<open>
  The \<open>for attempt in range(max_correction_attempts)\<close> loop with \<open>n\<close> attempts left.
  \<open>outs\<close> collects what the oracle returned, one entry per attempt.
\<close>

fun correction_loop ::
  "validator \<Rightarrow> 'o correction_oracle \<Rightarrow> string \<Rightarrow> nat \<Rightarrow>
   extracted_data \<Rightarrow> validation_result \<Rightarrow> 'o \<Rightarrow> extracted_data list \<Rightarrow>
   extracted_data \<times> validation_result \<times> 'o \<times> extracted_data list" where
  "correction_loop v correct biography 0 current_data validation st outs =
     (current_data, validation, st, outs)"
| "correction_loop v correct biography (Suc n) current_data validation st outs =
     (case correct st biography current_data (errors validation) of
        (current_data, st) \<Rightarrow>
          (let validation = validate_extracted_data v current_data
           in if is_valid validation
              then (current_data, validation, st, outs @ [current_data])
              else correction_loop v correct biography n current_data validation st
                     (outs @ [current_data])))"

text \<open>
  \<open>GenealogyService._validate_and_correct\<close>: the data and the validation result it
  returns, with the oracle's state and the list of the oracle's answers, one per attempt.
  \<open>range\<close> of a number below 1 is empty.
\<close>

definition validate_and_correct ::
  "validator \<Rightarrow> int \<Rightarrow> 'o correction_oracle \<Rightarrow> 'o \<Rightarrow> string \<Rightarrow> extracted_data \<Rightarrow>
   extracted_data \<times> validation_result \<times> 'o \<times> extracted_data list" where
  "validate_and_correct v max_correction_attempts correct st biography extracted =
     (let validation = validate_extracted_data v extracted
      in if is_valid validation then (extracted, validation, st, [])
         else correction_loop v correct biography (nat max_correction_attempts)
                extracted validation st [])"

text \<open>
  The attempts as the specification counts them: \<open>oracle_chain v correct b st d outs st'\<close>
  says that \<open>outs\<close> are the answers of one call of the oracle each, the first to the data
  \<open>d\<close> and the errors of its validation, every later one to the answer before it and the
  errors of that answer's validation, and that the calls take the oracle from the state
  \<open>st\<close> to the state \<open>st'\<close>.
\<close>

fun oracle_chain ::
  "validator \<Rightarrow> 'o correction_oracle \<Rightarrow> string \<Rightarrow> 'o \<Rightarrow> extracted_data \<Rightarrow>
   extracted_data list \<Rightarrow> 'o \<Rightarrow> bool" where
  "oracle_chain v correct biography st d [] st' = (st' = st)"
| "oracle_chain v correct biography st d (y # ys) st' =
     (case correct st biography d (errors (validate_extracted_data v d)) of
        (y', st1) \<Rightarrow> y' = y \<and> oracle_chain v correct biography st1 y ys st')"

section \<open>The store (persistence/tables.py, persistence/repositories.py)\<close>

text \<open>A row of \<open>persons\<close> (PersonTable), without the two time stamps.\<close>

record person =
  p_id :: uuid
  p_status :: person_status
  p_given_name :: string
  p_surname :: string
  p_maiden_name :: "string option"
  p_nickname :: "string option"
  p_gender :: gender
  p_birth_date :: "py_date option"
  p_birth_place :: "string option"
  p_death_date :: "py_date option"
  p_death_place :: "string option"
  p_biography :: "string option"
  p_generation :: int

text \<open>
  What the service writes to the log at the levels \<open>warning\<close> and \<open>error\<close>: each message
  is kept as its template and its arguments.  The \<open>info\<close> and timer lines are left out.
\<close>

datatype log_entry =
    Warn_invalid_person_reference "string list"
  | Warn_invalid_uuid string string
  | Warn_cannot_merge uuid uuid
  | Warn_duplicate_parents uuid uuid uuid
  | Warn_more_than_two_parents uuid "uuid list" uuid
  | Error_person_not_found uuid

text \<open>
  The database as one session sees it, and the log.  \<open>child_links\<close> holds the rows
  (parent_id, child_id) and \<open>spouse_links\<close> the rows (person1_id, person2_id).  The tables of
  events and notes are not part of the model; nothing below reads them.
\<close>

record store =
  persons :: "person list"
  child_links :: "(uuid \<times> uuid) list"
  spouse_links :: "(uuid \<times> uuid) list"
  creation_queue :: queue
  log :: "log_entry list"

definition log_line :: "log_entry \<Rightarrow> store \<Rightarrow> store" where
  "log_line l s = s\<lparr>log := log s @ [l]\<rparr>"

text \<open>The truth value of an optional string: not None and not empty.\<close>

definition str_truthy :: "string option \<Rightarrow> bool" where
  "str_truthy t = (case t of None \<Rightarrow> False | Some x \<Rightarrow> x \<noteq> [])"

subsection \<open>PersonRepository\<close>

definition get_by_id :: "store \<Rightarrow> uuid \<Rightarrow> person option" where
  "get_by_id s pid = find (\<lambda>p. p_id p = pid) (persons s)"

definition create_person :: "person \<Rightarrow> store \<Rightarrow> store" where
  "create_person p s = s\<lparr>persons := persons s @ [p]\<rparr>"

definition get_by_status :: "store \<Rightarrow> person_status \<Rightarrow> person list" where
  "get_by_status s st = filter (\<lambda>p. p_status p = st) (persons s)"

text \<open>\<open>update(person_id, **kwargs)\<close>: the keyword arguments are the function \<open>f\<close> on the row.\<close>

fun update_row :: "uuid \<Rightarrow> (person \<Rightarrow> person) \<Rightarrow> person list \<Rightarrow> person list" where
  "update_row pid f [] = []"
| "update_row pid f (p # ps) = (if p_id p = pid then f p # ps else p # update_row pid f ps)"

definition update_person :: "uuid \<Rightarrow> (person \<Rightarrow> person) \<Rightarrow> store \<Rightarrow> store" where
  "update_person pid f s = s\<lparr>persons := update_row pid f (persons s)\<rparr>"

fun delete_row :: "uuid \<Rightarrow> person list \<Rightarrow> person list" where
  "delete_row pid [] = []"
| "delete_row pid (p # ps) = (if p_id p = pid then ps else p # delete_row pid ps)"

definition delete_person :: "uuid \<Rightarrow> store \<Rightarrow> store" where
  "delete_person pid s = s\<lparr>persons := delete_row pid (persons s)\<rparr>"

text \<open>
  The SQL of the two searches.  \<open>ilike\<close> is rendered for SQLite as
  \<open>lower(column) LIKE lower(pattern)\<close>; SQLite's \<open>lower\<close> and \<open>LIKE\<close> fold the letters A-Z
  only, \<open>%\<close> stands for any text and \<open>_\<close> for any one character.
\<close>

definition sql_lower_char :: "char \<Rightarrow> char" where
  "sql_lower_char c =
     (let n = (of_char c :: nat) in if 65 \<le> n \<and> n \<le> 90 then add32 c else c)"

fun sql_like :: "string \<Rightarrow> string \<Rightarrow> bool" where
  "sql_like [] t = (t = [])"
| "sql_like (c # cs) [] = (c = CHR ''%'' \<and> sql_like cs [])"
| "sql_like (c # cs) (x # xs) =
     (if c = CHR ''%'' then sql_like cs (x # xs) \<or> sql_like (c # cs) xs
      else if c = CHR ''_'' then sql_like cs xs
      else sql_lower_char c = sql_lower_char x \<and> sql_like cs xs)"

definition ilike_contains :: "string \<Rightarrow> string \<Rightarrow> bool" where
  "ilike_contains column given =
     sql_like (map sql_lower_char (''%'' @ given @ ''%'')) (map sql_lower_char column)"

text \<open>
  \<open>strftime("%Y", birth_date)\<close>: the four digits of the year of a stored date; and
  \<open>x BETWEEN str(y - k) AND str(y + k)\<close>, a comparison of texts, which is false when the
  birth date is NULL.
\<close>

definition strftime_Y :: "py_date \<Rightarrow> string" where
  "strftime_Y d = (let t = str_int (d_year d) in replicate (4 - length t) CHR ''0'' @ t)"

definition birth_year_between :: "py_date option \<Rightarrow> int \<Rightarrow> int \<Rightarrow> bool" where
  "birth_year_between birth_date birth_year k =
     (case birth_date of
        None \<Rightarrow> False
      | Some d \<Rightarrow> str_int (birth_year - k) \<le> strftime_Y d \<and> strftime_Y d \<le> str_int (birth_year + k))"

definition search_similar ::
  "store \<Rightarrow> string \<Rightarrow> string \<Rightarrow> int option \<Rightarrow> string option \<Rightarrow> person list" where
  "search_similar s given sname birth_year maiden =
     filter (\<lambda>p.
        (p_surname p = sname \<or> p_maiden_name p = Some sname \<or>
         (str_truthy maiden \<and> (Some (p_surname p) = maiden \<or> p_maiden_name p = maiden))) \<and>
        ilike_contains (p_given_name p) given \<and>
        (case birth_year of None \<Rightarrow> True | Some y \<Rightarrow> birth_year_between (p_birth_date p) y 3))
      (persons s)"

definition search_by_given_name_and_birth_year ::
  "store \<Rightarrow> string \<Rightarrow> int option \<Rightarrow> person list" where
  "search_by_given_name_and_birth_year s given birth_year =
     filter (\<lambda>p.
        ilike_contains (p_given_name p) given \<and>
        (case birth_year of None \<Rightarrow> True | Some y \<Rightarrow> birth_year_between (p_birth_date p) y 5))
      (persons s)"

subsection \<open>ChildLinkRepository\<close>

definition link_exists :: "(uuid \<times> uuid) list \<Rightarrow> uuid \<Rightarrow> uuid \<Rightarrow> bool" where
  "link_exists links parent child = ((parent, child) \<in> set links)"

text \<open>
  The rows are kept in the order of their insertion.  SQLite answers \<open>get_children\<close> from
  the index of the primary key (parent, child), so in the order of the child ids, and
  \<open>get_parents\<close> from the index on the child id, in the order of insertion.
\<close>

definition get_children :: "(uuid \<times> uuid) list \<Rightarrow> uuid \<Rightarrow> uuid list" where
  "get_children links parent = sort (map snd (filter (\<lambda>l. fst l = parent) links))"

definition get_parents :: "(uuid \<times> uuid) list \<Rightarrow> uuid \<Rightarrow> uuid list" where
  "get_parents links child = map fst (filter (\<lambda>l. snd l = child) links)"

definition get_parent_count :: "(uuid \<times> uuid) list \<Rightarrow> uuid \<Rightarrow> nat" where
  "get_parent_count links child = length (filter (\<lambda>l. snd l = child) links)"

text \<open>\<open>delete\<close> removes the first row selected, \<open>create\<close> adds a row at the end.\<close>

definition delete_link :: "uuid \<Rightarrow> uuid \<Rightarrow> (uuid \<times> uuid) list \<Rightarrow> (uuid \<times> uuid) list" where
  "delete_link parent child links = remove1 (parent, child) links"

definition create_link :: "uuid \<Rightarrow> uuid \<Rightarrow> (uuid \<times> uuid) list \<Rightarrow> (uuid \<times> uuid) list" where
  "create_link parent child links = links @ [(parent, child)]"

definition reassign_parent ::
  "uuid \<Rightarrow> uuid \<Rightarrow> uuid \<Rightarrow> (uuid \<times> uuid) list \<Rightarrow> (uuid \<times> uuid) list" where
  "reassign_parent old_parent_id new_parent_id child_id links =
     (if link_exists links new_parent_id child_id
      then delete_link old_parent_id child_id links
      else if link_exists links old_parent_id child_id
      then create_link new_parent_id child_id (delete_link old_parent_id child_id links)
      else links)"

definition reassign_all_parent_links ::
  "uuid \<Rightarrow> uuid \<Rightarrow> (uuid \<times> uuid) list \<Rightarrow> (uuid \<times> uuid) list" where
  "reassign_all_parent_links old_parent_id new_parent_id links =
     foldl (\<lambda>ls child_id. reassign_parent old_parent_id new_parent_id child_id ls)
       links (get_children links old_parent_id)"

definition reassign_child ::
  "uuid \<Rightarrow> uuid \<Rightarrow> uuid \<Rightarrow> (uuid \<times> uuid) list \<Rightarrow> (uuid \<times> uuid) list" where
  "reassign_child old_child_id new_child_id parent_id links =
     (if link_exists links parent_id new_child_id
      then delete_link parent_id old_child_id links
      else create_link parent_id new_child_id (delete_link parent_id old_child_id links))"

definition reassign_all_child_links ::
  "uuid \<Rightarrow> uuid \<Rightarrow> (uuid \<times> uuid) list \<Rightarrow> (uuid \<times> uuid) list" where
  "reassign_all_child_links old_child_id new_child_id links =
     foldl (\<lambda>ls parent_id. reassign_child old_child_id new_child_id parent_id ls)
       links (get_parents links old_child_id)"

subsection \<open>SpouseLinkRepository\<close>

text \<open>The pair in the stored order: the smaller id first.\<close>

definition spouse_pair :: "uuid \<Rightarrow> uuid \<Rightarrow> uuid \<times> uuid" where
  "spouse_pair a b = (if a < b then (a, b) else (b, a))"

definition create_spouse_link :: "uuid \<Rightarrow> uuid \<Rightarrow> (uuid \<times> uuid) list \<Rightarrow> (uuid \<times> uuid) list" where
  "create_spouse_link a b links = links @ [spouse_pair a b]"

definition spouse_exists :: "(uuid \<times> uuid) list \<Rightarrow> uuid \<Rightarrow> uuid \<Rightarrow> bool" where
  "spouse_exists links a b = (spouse_pair a b \<in> set links)"

text \<open>
  The rows with the person first come from the index of the primary key, in the order of
  the second id; the rows with the person second in the order of insertion.
\<close>

definition get_spouses :: "(uuid \<times> uuid) list \<Rightarrow> uuid \<Rightarrow> uuid list" where
  "get_spouses links pid =
     sort (map snd (filter (\<lambda>l. fst l = pid) links)) @
     map fst (filter (\<lambda>l. snd l = pid) links)"

definition delete_all_for_person :: "uuid \<Rightarrow> (uuid \<times> uuid) list \<Rightarrow> (uuid \<times> uuid) list" where
  "delete_all_for_person pid links = filter (\<lambda>l. fst l \<noteq> pid \<and> snd l \<noteq> pid) links"

definition reassign_spouse ::
  "uuid \<Rightarrow> uuid \<Rightarrow> (uuid \<times> uuid) list \<Rightarrow> (uuid \<times> uuid) list" where
  "reassign_spouse new_person_id spouse_id links =
     (if spouse_id = new_person_id then links
      else if \<not> spouse_exists links new_person_id spouse_id
      then create_spouse_link new_person_id spouse_id links
      else links)"

definition reassign_spouse_links ::
  "uuid \<Rightarrow> uuid \<Rightarrow> (uuid \<times> uuid) list \<Rightarrow> (uuid \<times> uuid) list" where
  "reassign_spouse_links old_person_id new_person_id links =
     delete_all_for_person old_person_id
       (foldl (\<lambda>ls spouse_id. reassign_spouse new_person_id spouse_id ls)
          links (get_spouses links old_person_id))"

section \<open>The reference resolver (services/genealogy_service.py)\<close>

datatype py_error = ValueError

text \<open>\<open>date(year, 1, 1)\<close>, which raises ValueError outside the years 1 to 9999.\<close>

definition first_of_january :: "int \<Rightarrow> py_error + py_date" where
  "first_of_january y =
     (if 1 \<le> y \<and> y \<le> 9999 then Inr \<lparr>d_year = y, d_month = 1, d_day = 1\<rparr> else Inl ValueError)"

text \<open>\<open>DedupResult\<close>; the confidence and the reasoning are only logged.\<close>

record dedup_result =
  is_duplicate :: bool
  matched_person_id :: "string option"

text \<open>
  What a call of the resolver takes from outside the store:
  \<^item> \<open>today_year\<close> is \<open>date.today().year\<close>;
  \<^item> \<open>parse_uuid\<close> is \<open>UUID(text)\<close> of the standard library, None where it raises
    ValueError;
  \<^item> \<open>check_duplicate\<close> is the Dedup Oracle.  The summaries it is shown are computed from
    the reference, the generation, the mentioning person, the first five candidates and the
    store (for the relations and the biography snippets), so it is given these;
  \<^item> \<open>new_uuid\<close> is the \<open>uuid4()\<close> that a new Person gets;
  \<^item> \<open>clock\<close> is the time a new queue row gets.
\<close>

record env =
  today_year :: int
  parse_uuid :: "string \<Rightarrow> uuid option"
  check_duplicate :: "store \<Rightarrow> person_reference \<Rightarrow> int \<Rightarrow> person option \<Rightarrow> person list \<Rightarrow> dedup_result"
  new_uuid :: uuid
  clock :: nat

text \<open>The candidates of both searches, the broader ones added where their id is new.\<close>

definition find_candidates :: "store \<Rightarrow> person_reference \<Rightarrow> person list" where
  "find_candidates s reference =
     (let parsed = parse_name (r_name reference);
          candidates = search_similar s (given_name parsed) (surname parsed)
                         (approximate_birth_year reference) (maiden_name parsed);
          broader_candidates = search_by_given_name_and_birth_year s (given_name parsed)
                         (approximate_birth_year reference)
      in foldl (\<lambda>cs bc. if p_id bc \<in> p_id ` set cs then cs else cs @ [bc])
           candidates broader_candidates)"

text \<open>
  The score of one candidate: the heuristic score, raised to 0.6 when it is below 0.5, the
  given names agree and a spouse of the candidate carries the surname of the reference.
\<close>

definition candidate_score :: "store \<Rightarrow> person_reference \<Rightarrow> person \<Rightarrow> rat" where
  "candidate_score s reference candidate =
     (let parsed = parse_name (r_name reference);
          base_score = heuristic_match_score (r_name reference) (approximate_birth_year reference)
                         (p_given_name candidate @ '' '' @ p_surname candidate)
                         (map_option d_year (p_birth_date candidate))
      in if base_score < float_literal 0.5 \<and>
            lower (p_given_name candidate) = lower (given_name parsed) \<and>
            list_ex (\<lambda>spouse_id.
                case get_by_id s spouse_id of
                  None \<Rightarrow> False
                | Some spouse \<Rightarrow> lower (p_surname spouse) = lower (surname parsed))
              (get_spouses (spouse_links s) (p_id candidate))
         then max base_score (float_literal 0.6)
         else base_score)"

text \<open>\<open>good_candidates\<close> after the sort by descending score, which keeps ties in order.\<close>

definition good_candidates :: "store \<Rightarrow> person_reference \<Rightarrow> (person \<times> rat) list" where
  "good_candidates s reference =
     sort_key (\<lambda>cs. - snd cs)
       (filter (\<lambda>cs. snd cs \<ge> float_literal 0.5)
          (map (\<lambda>c. (c, candidate_score s reference c)) (find_candidates s reference)))"

text \<open>The end of the resolver: "No match found - create pending record".\<close>

definition create_pending_record ::
  "env \<Rightarrow> store \<Rightarrow> person_reference \<Rightarrow> int \<Rightarrow> py_error + (uuid option \<times> store)" where
  "create_pending_record e s reference generation =
     (let parsed = parse_name (r_name reference);
          birth_date =
            (if year_truthy (approximate_birth_year reference)
             then map_sum id Some (first_of_january (the (approximate_birth_year reference)))
             else Inr None)
      in case birth_date of
           Inl err \<Rightarrow> Inl err
         | Inr bd \<Rightarrow>
             Inr (Some (new_uuid e),
                  create_person
                    \<lparr>p_id = new_uuid e, p_status = PENDING,
                     p_given_name = given_name parsed, p_surname = surname parsed,
                     p_maiden_name = maiden_name parsed, p_nickname = None,
                     p_gender = r_gender reference, p_birth_date = bd, p_birth_place = None,
                     p_death_date = None, p_death_place = None, p_biography = None,
                     p_generation = generation\<rparr> s))"

text \<open>
  \<open>GenealogyService._resolve_person_reference\<close>: the id returned (None for a dropped
  reference) and the store after it, or the exception that leaves it.  On a confirmed
  match the source may go on to \<open>_evaluate_shared_events\<close>, which writes events and notes
  only; they are outside the store of the model.
\<close>

definition resolve_person_reference ::
  "env \<Rightarrow> store \<Rightarrow> person_reference \<Rightarrow> int \<Rightarrow> person option \<Rightarrow>
   py_error + (uuid option \<times> store)" where
  "resolve_person_reference e s reference generation new_person =
     (let validation = validate_person_reference (today_year e) reference
      in if \<not> is_valid validation
         then Inr (None, log_line (Warn_invalid_person_reference (errors validation)) s)
         else
           (let good = good_candidates s reference
            in if good \<noteq> [] then
                 (let dedup = check_duplicate e s reference generation new_person
                                (map fst (take 5 good))
                  in if is_duplicate dedup \<and> str_truthy (matched_person_id dedup) then
                       (case parse_uuid e (the (matched_person_id dedup)) of
                          Some matched_id \<Rightarrow> Inr (Some matched_id, s)
                        | None \<Rightarrow>
                            create_pending_record e
                              (log_line (Warn_invalid_uuid (the (matched_person_id dedup))
                                 (r_name reference)) s)
                              reference generation)
                     else create_pending_record e s reference generation)
               else create_pending_record e s reference generation))"

section \<open>The merge engine (services/genealogy_service.py)\<close>

text \<open>
  The fields \<open>_merge_persons\<close> copies onto the kept row: each one that is missing there
  and present on the merged row; the status goes with the biography.
\<close>

definition merge_updates :: "person \<Rightarrow> person \<Rightarrow> person \<Rightarrow> person" where
  "merge_updates keep_person merge_person row =
     (let row = (if \<not> str_truthy (p_maiden_name keep_person) \<and> str_truthy (p_maiden_name merge_person)
                 then row\<lparr>p_maiden_name := p_maiden_name merge_person\<rparr> else row);
          row = (if \<not> str_truthy (p_birth_place keep_person) \<and> str_truthy (p_birth_place merge_person)
                 then row\<lparr>p_birth_place := p_birth_place merge_person\<rparr> else row);
          row = (if p_death_date keep_person = None \<and> p_death_date merge_person \<noteq> None
                 then row\<lparr>p_death_date := p_death_date merge_person\<rparr> else row);
          row = (if \<not> str_truthy (p_death_place keep_person) \<and> str_truthy (p_death_place merge_person)
                 then row\<lparr>p_death_place := p_death_place merge_person\<rparr> else row);
          row = (if \<not> str_truthy (p_biography keep_person) \<and> str_truthy (p_biography merge_person)
                 then row\<lparr>p_biography := p_biography merge_person,
                          p_status := p_status merge_person\<rparr> else row)
      in row)"

text \<open>\<open>GenealogyService._merge_persons\<close>.\<close>

definition merge_persons :: "store \<Rightarrow> uuid \<Rightarrow> uuid \<Rightarrow> store" where
  "merge_persons s keep_id merge_id =
     (case (get_by_id s keep_id, get_by_id s merge_id) of
        (Some keep_person, Some merge_person) \<Rightarrow>
          (let s = s\<lparr>child_links := reassign_all_parent_links merge_id keep_id (child_links s)\<rparr>;
               s = s\<lparr>child_links := reassign_all_child_links merge_id keep_id (child_links s)\<rparr>;
               s = s\<lparr>spouse_links := reassign_spouse_links merge_id keep_id (spouse_links s)\<rparr>;
               s = update_person keep_id (merge_updates keep_person merge_person) s
           in delete_person merge_id s)
      | _ \<Rightarrow> log_line (Warn_cannot_merge keep_id merge_id) s)"

text \<open>
  The test in the loop of \<open>_check_and_merge_duplicate_parents\<close>: is this existing parent
  a probable duplicate of the new parent?
\<close>

definition spouse_has_surname :: "store \<Rightarrow> uuid \<Rightarrow> string \<Rightarrow> bool" where
  "spouse_has_surname s pid sname =
     list_ex (\<lambda>spouse_id.
         case get_by_id s spouse_id of
           None \<Rightarrow> False
         | Some spouse \<Rightarrow> lower (p_surname spouse) = lower sname)
       (get_spouses (spouse_links s) pid)"

definition probable_duplicate :: "store \<Rightarrow> uuid \<Rightarrow> person \<Rightarrow> uuid \<Rightarrow> bool" where
  "probable_duplicate s new_parent_id new_parent existing_parent_id =
     (case get_by_id s existing_parent_id of
        None \<Rightarrow> False
      | Some existing_parent \<Rightarrow>
          (let new_parsed = parse_name (p_given_name new_parent @ '' '' @ p_surname new_parent);
               existing_parsed =
                 parse_name (p_given_name existing_parent @ '' '' @ p_surname existing_parent);
               surnames_match =
                 (lower (surname existing_parsed) = lower (surname new_parsed) \<or>
                  (str_truthy (p_maiden_name existing_parent) \<and>
                   lower (the (p_maiden_name existing_parent)) = lower (surname new_parsed)) \<or>
                  (str_truthy (p_maiden_name new_parent) \<and>
                   lower (the (p_maiden_name new_parent)) = lower (surname existing_parsed)) \<or>
                  spouse_has_surname s existing_parent_id (surname new_parsed) \<or>
                  spouse_has_surname s new_parent_id (surname existing_parsed));
               birth_year_match =
                 (case (p_birth_date existing_parent, p_birth_date new_parent) of
                    (Some d1, Some d2) \<Rightarrow> \<bar>d_year d1 - d_year d2\<bar> \<le> 5
                  | _ \<Rightarrow> True)
           in p_gender existing_parent = p_gender new_parent \<and>
              lower (given_name existing_parsed) = lower (given_name new_parsed) \<and>
              surnames_match \<and> birth_year_match))"

text \<open>
  \<open>GenealogyService._check_and_merge_duplicate_parents\<close>: the parent id to link and the
  store after the merge, if one was made.
\<close>

definition check_and_merge_duplicate_parents :: "store \<Rightarrow> uuid \<Rightarrow> uuid \<Rightarrow> uuid \<times> store" where
  "check_and_merge_duplicate_parents s child_id new_parent_id =
     (let existing_parent_ids = get_parents (child_links s) child_id
      in if length existing_parent_ids < 2 then (new_parent_id, s)
         else
           (case get_by_id s new_parent_id of
              None \<Rightarrow> (new_parent_id, s)
            | Some new_parent \<Rightarrow>
                (case find (probable_duplicate s new_parent_id new_parent) existing_parent_ids of
                   Some existing_parent_id \<Rightarrow>
                     (let s' = log_line
                                 (Warn_duplicate_parents child_id existing_parent_id new_parent_id) s
                      in if str_truthy (p_biography new_parent) \<and>
                            \<not> str_truthy (p_biography (the (get_by_id s existing_parent_id)))
                         then (new_parent_id, merge_persons s' new_parent_id existing_parent_id)
                         else (existing_parent_id, merge_persons s' existing_parent_id new_parent_id))
                 | None \<Rightarrow>
                     (new_parent_id,
                      log_line (Warn_more_than_two_parents child_id existing_parent_ids
                        new_parent_id) s))))"

section \<open>The orchestrator's handling of a parent, and the scheduler\<close>

text \<open>
  The body of the loop over \<open>extracted.parents\<close> in \<open>_process_references\<close>, after the
  reference was resolved to \<open>parent_id\<close>.
\<close>

definition link_parent :: "env \<Rightarrow> store \<Rightarrow> uuid \<Rightarrow> uuid \<Rightarrow> store" where
  "link_parent e s child_id parent_id =
     (if link_exists (child_links s) parent_id child_id then s
      else
        (let many = (get_parent_count (child_links s) child_id \<ge> 2);
             (parent_id, s) =
               (if many then check_and_merge_duplicate_parents s child_id parent_id
                else (parent_id, s))
         in if many \<and> link_exists (child_links s) parent_id child_id then s
            else
              (let s = s\<lparr>child_links := create_link parent_id child_id (child_links s)\<rparr>
               in case get_by_id s parent_id of
                    None \<Rightarrow> s
                  | Some parent \<Rightarrow>
                      if p_status parent = PENDING
                      then update_person parent_id (\<lambda>row. row\<lparr>p_status := QUEUED\<rparr>)
                             (s\<lparr>creation_queue := enqueue (clock e) parent_id 1 (creation_queue s)\<rparr>)
                      else s)))"

text \<open>One parent reference of the subject \<open>subject\<close>: resolve it one generation up, link.\<close>

definition process_parent_reference ::
  "env \<Rightarrow> store \<Rightarrow> person \<Rightarrow> person_reference \<Rightarrow> py_error + store" where
  "process_parent_reference e s subject parent_ref =
     (case resolve_person_reference e s parent_ref (p_generation subject - 1) (Some subject) of
        Inl err \<Rightarrow> Inl err
      | Inr (None, s') \<Rightarrow> Inr s'
      | Inr (Some parent_id, s') \<Rightarrow> Inr (link_parent e s' (p_id subject) parent_id))"

text \<open>
  \<open>GenealogyService.process_next\<close> up to the point where it hands over to the pipeline of
  the external collaborators: it returns None, or goes on to \<open>_create_seed_person\<close>, or to
  \<open>_process_person\<close> for the chosen id.  \<open>sample\<close> is the forest-fire sampling, a random
  choice among the pending persons.
\<close>

datatype next_outcome = Returned_none | Create_seed_person | Process_person uuid

definition load_for_processing :: "store \<Rightarrow> uuid \<Rightarrow> next_outcome \<times> store" where
  "load_for_processing s pid =
     (case get_by_id s pid of
        None \<Rightarrow> (Returned_none, log_line (Error_person_not_found pid) s)
      | Some db_person \<Rightarrow>
          (Process_person pid, update_person pid (\<lambda>row. row\<lparr>p_status := PROCESSING\<rparr>) s))"

definition process_next :: "(person list \<Rightarrow> person) \<Rightarrow> store \<Rightarrow> next_outcome \<times> store" where
  "process_next sample s =
     (case dequeue (creation_queue s) of
        (Some pid, q) \<Rightarrow> load_for_processing (s\<lparr>creation_queue := q\<rparr>) pid
      | (None, q) \<Rightarrow>
          (let pending = get_by_status s PENDING
           in if pending \<noteq> [] then load_for_processing s (p_id (sample pending))
              else (Create_seed_person, s)))"

section \<open>Sample records for the worked examples\<close>

text \<open>\<open>Person(id, given_name, surname)\<close> with every other field at its default.\<close>

definition person_with_defaults :: "uuid \<Rightarrow> string \<Rightarrow> string \<Rightarrow> person" where
  "person_with_defaults i g sn =
     \<lparr>p_id = i, p_status = PENDING, p_given_name = g, p_surname = sn, p_maiden_name = None,
      p_nickname = None, p_gender = UNKNOWN, p_birth_date = None, p_birth_place = None,
      p_death_date = None, p_death_place = None, p_biography = None, p_generation = 0\<rparr>"

definition empty_store :: store where
  "empty_store = \<lparr>persons = [], child_links = [], spouse_links = [], creation_queue = [], log = []\<rparr>"

text \<open>\<open>PersonReference(name, relationship, approximate_birth_year)\<close>, the rest at its default.\<close>

definition reference_with_defaults :: "string \<Rightarrow> relationship_type \<Rightarrow> int option \<Rightarrow> person_reference" where
  "reference_with_defaults n rel y =
     \<lparr>r_name = n, r_relationship = rel, approximate_birth_year = y, r_gender = UNKNOWN,
      r_context = None\<rparr>"

text \<open>
  \<open>ExtractedData(given_name, surname, gender)\<close> with the years given and no relatives,
  events or notes.
\<close>

definition extracted_with_years :: "int option \<Rightarrow> int option \<Rightarrow> extracted_data" where
  "extracted_with_years b d =
     \<lparr>x_given_name = ''John'', x_surname = ''Smith'', x_maiden_name = None, x_gender = MALE,
      x_birth_date = None, x_birth_place = None, x_birth_year = b,
      x_death_date = None, x_death_place = None, x_death_year = d,
      x_parents = [], x_children = [], x_spouses = [], x_siblings = [], x_other_relatives = [],
      x_events = [], x_notes = []\<rparr>"

text \<open>The limits of config.py: 14, 60 and 120.\<close>

definition default_validator :: validator where
  "default_validator = \<lparr>min_parent_age = 14, max_parent_age = 60, max_lifespan = 120\<rparr>"

text \<open>
  An environment for the examples: the year is 2024, the oracle finds no duplicate, no text
  is a UUID, and the next new id is \<open>i\<close>.
\<close>

definition quiet_env :: "uuid \<Rightarrow> env" where
  "quiet_env i =
     \<lparr>today_year = 2024, parse_uuid = (\<lambda>t. None),
      check_duplicate = (\<lambda>s r g np cs. \<lparr>is_duplicate = False, matched_person_id = None\<rparr>),
      new_uuid = i, clock = 0\<rparr>"

text \<open>Two records of one Mary Jones, 10 and 20; the second is queued and is the parent of person 30.\<close>

definition two_marys :: store where
  "two_marys =
     \<lparr>persons = [person_with_defaults 10 ''Mary'' ''Jones'', person_with_defaults 20 ''Mary'' ''Jones''],
      child_links = [(20, 30)], spouse_links = [],
      creation_queue = [\<lparr>person_id = 20, priority = 1, added_at = 0\<rparr>], log = []\<rparr>"

text \<open>A store with one complete record, John Smith born on 1 January 1950, id 10.\<close>

definition john_smith_1950 :: store where
  "john_smith_1950 =
     empty_store\<lparr>persons :=
       [(person_with_defaults 10 ''John'' ''Smith'')
          \<lparr>p_status := COMPLETE,
           p_birth_date := Some \<lparr>d_year = 1950, d_month = 1, d_day = 1\<rparr>\<rparr>]\<rparr>"

text \<open>
  An environment whose oracle reports a duplicate under the truncated id \<open>3f2a\<close>, which is
  not a UUID; the text \<open>u10\<close> stands for the UUID of person 10.
\<close>

definition truncating_env :: "uuid \<Rightarrow> env" where
  "truncating_env i =
     \<lparr>today_year = 2024, parse_uuid = (\<lambda>t. if t = ''u10'' then Some 10 else None),
      check_duplicate = (\<lambda>s r g np cs. \<lparr>is_duplicate = True, matched_person_id = Some ''3f2a''\<rparr>),
      new_uuid = i, clock = 0\<rparr>"

text \<open>
  A household: Sam Jones, 30, with the parents Mary Jones, 10, and Tom Jones, 20; Ann Lee,
  40, and a second record of Mary Jones, 50, are linked to nobody.
\<close>

definition jones_household :: store where
  "jones_household =
     \<lparr>persons =
        [person_with_defaults 10 ''Mary'' ''Jones'', person_with_defaults 20 ''Tom'' ''Jones'',
         person_with_defaults 30 ''Sam'' ''Jones'', person_with_defaults 40 ''Ann'' ''Lee'',
         person_with_defaults 50 ''Mary'' ''Jones''],
      child_links = [(10, 30), (20, 30)], spouse_links = [], creation_queue = [], log = []\<rparr>"

text \<open>
  The same household where both records of Mary Jones have two parents of their own: 11 and
  12 for the first, 51 and 52 for the second.
\<close>

definition jones_household_with_grandparents :: store where
  "jones_household_with_grandparents =
     jones_household\<lparr>child_links := [(10, 30), (20, 30), (11, 10), (12, 10), (51, 50), (52, 50)]\<rparr>"


section \<open>Properties of the queue\<close>

lemma set_priority_ids: "map person_id (set_priority pid p q) = map person_id q"
  by (induction q) auto

lemma enqueue_distinct:
  assumes "distinct (map person_id q)"
  shows "distinct (map person_id (enqueue now pid prio q))"
proof (cases "find (\<lambda>e. person_id e = pid) q")
  case None
  then have "pid \<notin> person_id ` set q"
    by (auto simp: find_None_iff)
  with assms None show ?thesis
    by (simp add: enqueue_def)
next
  case (Some e)
  with assms show ?thesis
    by (simp add: enqueue_def set_priority_ids)
qed

lemma distinct_ids_remove1:
  "distinct (map person_id q) \<Longrightarrow> distinct (map person_id (remove1 e q))"
proof (induction q)
  case Nil
  then show ?case by simp
next
  case (Cons a q)
  have "set (remove1 e q) \<subseteq> set q" by (rule set_remove1_subset)
  with Cons show ?case by auto
qed

lemma dequeue_distinct:
  assumes "distinct (map person_id q)"
  shows "distinct (map person_id (snd (dequeue q)))"
proof (cases "sort_key queue_order q")
  case Nil
  with assms show ?thesis by (simp add: dequeue_def)
next
  case (Cons e es)
  from assms have "distinct (map person_id (remove1 e q))"
    by (rule distinct_ids_remove1)
  with Cons show ?thesis by (simp add: dequeue_def)
qed

lemma run_queue_distinct: "distinct (map person_id (foldl queue_step q ops))"
  if "distinct (map person_id q)"
  using that
proof (induction ops arbitrary: q)
  case Nil
  then show ?case by simp
next
  case (Cons a ops)
  have "distinct (map person_id (queue_step q a))"
    using Cons.prems by (cases a) (simp_all add: enqueue_distinct dequeue_distinct)
  then show ?case using Cons.IH by simp
qed

lemma sort_key_head:
  assumes "sort_key f xs = e # es"
  shows "e \<in> set xs \<and> (\<forall>x \<in> set xs. f e \<le> f x)"
proof -
  have s: "set xs = insert e (set es)"
    using assms set_sort [of f xs] by simp
  have "sorted (map f (e # es))"
    using assms sorted_sort_key [of f xs] by simp
  then have "\<forall>x \<in> set es. f e \<le> f x" by simp
  with s show ?thesis by auto
qed

lemma dequeue_nonempty:
  assumes "q \<noteq> []"
  shows "\<exists>e \<in> set q. dequeue q = (Some (person_id e), remove1 e q) \<and>
           (\<forall>x \<in> set q. priority x \<le> priority e \<and>
              (priority x = priority e \<longrightarrow> added_at e \<le> added_at x))"
proof -
  from assms have "sort_key queue_order q \<noteq> []"
    by (metis length_sort length_0_conv)
  then obtain e es where s: "sort_key queue_order q = e # es"
    by (cases "sort_key queue_order q") auto
  from sort_key_head [OF s]
  have mem: "e \<in> set q" and least: "\<forall>x \<in> set q. queue_order e \<le> queue_order x"
    by auto
  have "priority x \<le> priority e \<and> (priority x = priority e \<longrightarrow> added_at e \<le> added_at x)"
    if "x \<in> set q" for x
    using least that by (auto simp: queue_order_def less_eq_prod_def)
  with mem s show ?thesis
    by (auto simp: dequeue_def)
qed

lemma set_priority_find:
  "find (\<lambda>e. person_id e = pid) (set_priority pid' p q) =
     (if pid = pid' then map_option (\<lambda>e. e\<lparr>priority := p\<rparr>) (find (\<lambda>e. person_id e = pid) q)
      else find (\<lambda>e. person_id e = pid) q)"
  by (induction q) auto

lemma enqueue_existing_priority:
  assumes "queued_priority q pid = Some p"
  shows "queued_priority (enqueue now pid p' q) pid = Some (max p p') \<and>
         (enqueue now pid p' q = q \<longleftrightarrow> \<not> p < p') \<and>
         map person_id (enqueue now pid p' q) = map person_id q \<and>
         map added_at (enqueue now pid p' q) = map added_at q"
proof -
  from assms obtain e where e: "find (\<lambda>e. person_id e = pid) q = Some e" "priority e = p"
    by (auto simp: queued_priority_def)
  have ch: "set_priority pid p' q \<noteq> q" if "p < p'"
  proof
    assume "set_priority pid p' q = q"
    then have "find (\<lambda>e. person_id e = pid) (set_priority pid p' q) = Some e"
      using e by simp
    then have "e\<lparr>priority := p'\<rparr> = e"
      by (simp add: set_priority_find e)
    then have "priority (e\<lparr>priority := p'\<rparr>) = priority e" by simp
    with e that show False by simp
  qed
  have ts: "map added_at (set_priority pid p' q) = map added_at q"
    by (induction q) auto
  from e ch ts show ?thesis
    by (auto simp: queued_priority_def enqueue_def set_priority_find set_priority_ids)
qed

lemma find_snoc_other:
  "\<not> P x \<Longrightarrow> find P (xs @ [x]) = find P xs"
  by (induction xs) auto

lemma enqueue_other_priority:
  "pid' \<noteq> pid \<Longrightarrow> queued_priority (enqueue now pid p' q) pid' = queued_priority q pid'"
  by (auto simp: queued_priority_def enqueue_def set_priority_find find_snoc_other
      split: option.splits)

text \<open>
  C8.  Whatever calls were made on the queue, it holds at most one row per person id.
  \<open>dequeue\<close> on the empty queue returns nothing; on any other queue it removes and returns a
  row that no row beats: no row has a higher priority, and no row of the same priority was
  added earlier.  Enqueuing a person who is already queued with priority \<open>p\<close> leaves the rows
  and their time stamps where they are and changes the queue only when the new priority is
  strictly higher, so the person is then queued with the maximum of the two and every other
  person's priority is untouched.
\<close>

theorem queue_one_entry_highest_first_never_lowered:
  "distinct (map person_id (run_queue ops)) \<and>
   dequeue [] = (None, []) \<and>
   (q \<noteq> [] \<longrightarrow>
      (\<exists>e \<in> set q. dequeue q = (Some (person_id e), remove1 e q) \<and>
         (\<forall>x \<in> set q. priority x \<le> priority e \<and>
            (priority x = priority e \<longrightarrow> added_at e \<le> added_at x)))) \<and>
   (queued_priority q pid = Some p \<longrightarrow>
      queued_priority (enqueue now pid p' q) pid = Some (max p p') \<and>
      (enqueue now pid p' q = q \<longleftrightarrow> \<not> p < p') \<and>
      map person_id (enqueue now pid p' q) = map person_id q \<and>
      map added_at (enqueue now pid p' q) = map added_at q \<and>
      (\<forall>pid'. pid' \<noteq> pid \<longrightarrow>
         queued_priority (enqueue now pid p' q) pid' = queued_priority q pid'))"
proof -
  have a: "distinct (map person_id (run_queue ops))"
    unfolding run_queue_def by (rule run_queue_distinct) simp
  have b: "dequeue [] = (None, [])"
    by (simp add: dequeue_def)
  show ?thesis
    using a b dequeue_nonempty [of q] enqueue_existing_priority [of q pid p now p']
      enqueue_other_priority [of _ pid now p' q]
    by blast
qed

text \<open>The theorem at a three-row queue, where person 1 is re-enqueued with a higher priority.\<close>

theorem queue_one_entry_highest_first_never_lowered_witness:
  "[\<lparr>person_id = 1, priority = 0, added_at = 10\<rparr>,
    \<lparr>person_id = 2, priority = 1, added_at = 11\<rparr>,
    \<lparr>person_id = 3, priority = 1, added_at = 12\<rparr>] \<noteq> [] \<and>
   queued_priority
     [\<lparr>person_id = 1, priority = 0, added_at = 10\<rparr>,
      \<lparr>person_id = 2, priority = 1, added_at = 11\<rparr>,
      \<lparr>person_id = 3, priority = 1, added_at = 12\<rparr>] 1 = Some 0 \<and>
   distinct (map person_id (run_queue [Enqueue 10 1 0, Enqueue 11 1 4, Dequeue, Enqueue 12 1 0])) \<and>
   queued_priority
     (enqueue 13 1 5
       [\<lparr>person_id = 1, priority = 0, added_at = 10\<rparr>,
        \<lparr>person_id = 2, priority = 1, added_at = 11\<rparr>,
        \<lparr>person_id = 3, priority = 1, added_at = 12\<rparr>]) 1 = Some 5 \<and>
   (\<exists>e \<in> set [\<lparr>person_id = 1, priority = 0, added_at = 10\<rparr>,
               \<lparr>person_id = 2, priority = 1, added_at = 11\<rparr>,
               \<lparr>person_id = 3, priority = 1, added_at = 12\<rparr>].
      dequeue [\<lparr>person_id = 1, priority = 0, added_at = 10\<rparr>,
               \<lparr>person_id = 2, priority = 1, added_at = 11\<rparr>,
               \<lparr>person_id = 3, priority = 1, added_at = 12\<rparr>]
        = (Some (person_id e),
           remove1 e [\<lparr>person_id = 1, priority = 0, added_at = 10\<rparr>,
                      \<lparr>person_id = 2, priority = 1, added_at = 11\<rparr>,
                      \<lparr>person_id = 3, priority = 1, added_at = 12\<rparr>]))"
proof -
  let ?q = "[\<lparr>person_id = 1, priority = 0, added_at = 10\<rparr>,
             \<lparr>person_id = 2, priority = 1, added_at = 11\<rparr>,
             \<lparr>person_id = 3, priority = 1, added_at = 12\<rparr>]"
  have h1: "?q \<noteq> []" by simp
  have h2: "queued_priority ?q 1 = Some 0" by (simp add: queued_priority_def)
  from queue_one_entry_highest_first_never_lowered
    [of "[Enqueue 10 1 0, Enqueue 11 1 4, Dequeue, Enqueue 12 1 0]" ?q 1 0 13 5] h1 h2
  show ?thesis by auto
qed

section \<open>Properties of the name parser\<close>

lemmas name_eval = lower_def py_lower_def py_isspace_def py_isword_def strip_def rstrip_dot_def
  split_def is_word_opt_def next_char_def first_match_def group_text_def rx_search_def
  rx_sub_empty_def rx_findall_def collapse_ws_def not_rparen_def nee_patterns_def
  suffix_pattern_def extract_suffixes_def name_parts_def parse_name_def Let_def

lemma split_acc_tokens:
  assumes "\<forall>c \<in> set cur. \<not> py_isspace c" and "t \<in> set (split_acc cur s)"
  shows "t \<noteq> [] \<and> (\<forall>c \<in> set t. \<not> py_isspace c)"
  using assms
proof (induction s arbitrary: cur)
  case Nil
  then show ?case by (cases "cur = []") auto
next
  case (Cons c cs)
  show ?case
  proof (cases "py_isspace c")
    case True
    show ?thesis
    proof (cases "cur = []")
      case True
      with \<open>py_isspace c\<close> Cons.prems(2) have "t \<in> set (split_acc [] cs)" by simp
      then show ?thesis using Cons.IH [of "[]"] by simp
    next
      case False
      with \<open>py_isspace c\<close> Cons.prems(2) have "t = rev cur \<or> t \<in> set (split_acc [] cs)"
        by simp
      then show ?thesis using Cons.IH [of "[]"] Cons.prems(1) False by auto
    qed
  next
    case False
    with Cons.prems(2) have "t \<in> set (split_acc (c # cur) cs)" by simp
    moreover have "\<forall>x \<in> set (c # cur). \<not> py_isspace x"
      using False Cons.prems(1) by simp
    ultimately show ?thesis using Cons.IH [of "c # cur"] by blast
  qed
qed

lemma split_tokens: "t \<in> set (split s) \<Longrightarrow> t \<noteq> [] \<and> (\<forall>c \<in> set t. \<not> py_isspace c)"
  unfolding split_def by (rule split_acc_tokens [of "[]"]) simp_all

lemma name_parts_tokens:
  "t \<in> set (name_parts n) \<Longrightarrow> t \<noteq> [] \<and> (\<forall>c \<in> set t. \<not> py_isspace c)"
  unfolding name_parts_def by (rule split_tokens)

lemma parse_name_by_parts:
  "parse_name full_name =
     (let parts = name_parts full_name;
          maiden = fst (extract_maiden nee_patterns (strip full_name));
          sfx = fst (extract_suffixes (snd (extract_maiden nee_patterns (strip full_name))));
          sfx_or_none = (if sfx = [] then None else Some sfx)
      in if length parts = 0 then
           \<lparr>given_name = ''Unknown'', middle_names = [], surname = ''Unknown'',
            maiden_name = maiden, suffixes = sfx_or_none\<rparr>
         else if length parts = 1 then
           \<lparr>given_name = parts ! 0, middle_names = [], surname = ''Unknown'',
            maiden_name = maiden, suffixes = sfx_or_none\<rparr>
         else if length parts = 2 then
           \<lparr>given_name = parts ! 0, middle_names = [], surname = parts ! 1,
            maiden_name = maiden, suffixes = sfx_or_none\<rparr>
         else
           \<lparr>given_name = parts ! 0, middle_names = butlast (tl parts), surname = last parts,
            maiden_name = maiden, suffixes = sfx_or_none\<rparr>)"
  unfolding parse_name_def name_parts_def Let_def
  by (simp only: case_prod_beta)

lemma first_between_last:
  assumes "3 \<le> length xs"
  shows "xs = xs ! 0 # butlast (tl xs) @ [last xs]"
proof (cases xs)
  case Nil
  with assms show ?thesis by simp
next
  case (Cons a ys)
  with assms have "ys \<noteq> []" by auto
  then have "ys = butlast ys @ [last ys]" by simp
  with Cons \<open>ys \<noteq> []\<close> show ?thesis by simp
qed

text \<open>
  C6.  \<open>parse_name\<close> is a total function: none of its steps can fail.  With \<open>parts\<close> the
  tokens left after the maiden name and the suffixes were cut out and the white space was
  collapsed (each token is non-empty and free of white space): no token gives "Unknown" for
  both names; one token is the given name and the surname is "Unknown"; two tokens are
  given name and surname; with three or more the first is the given name, the last the
  surname and those between, in order, the middle names.
\<close>

theorem parse_name_splits_remaining_tokens:
  "(length (name_parts n) = 0 \<longrightarrow>
      given_name (parse_name n) = ''Unknown'' \<and> middle_names (parse_name n) = [] \<and>
      surname (parse_name n) = ''Unknown'') \<and>
   (length (name_parts n) = 1 \<longrightarrow>
      given_name (parse_name n) = name_parts n ! 0 \<and> middle_names (parse_name n) = [] \<and>
      surname (parse_name n) = ''Unknown'') \<and>
   (length (name_parts n) = 2 \<longrightarrow>
      given_name (parse_name n) = name_parts n ! 0 \<and> middle_names (parse_name n) = [] \<and>
      surname (parse_name n) = name_parts n ! 1) \<and>
   (3 \<le> length (name_parts n) \<longrightarrow>
      given_name (parse_name n) = name_parts n ! 0 \<and>
      surname (parse_name n) = name_parts n ! (length (name_parts n) - 1) \<and>
      name_parts n = given_name (parse_name n) # middle_names (parse_name n) @ [surname (parse_name n)]) \<and>
   (\<forall>t \<in> set (name_parts n). t \<noteq> [] \<and> (\<forall>c \<in> set t. \<not> py_isspace c))"
proof -
  have long: "given_name (parse_name n) = name_parts n ! 0 \<and>
      surname (parse_name n) = name_parts n ! (length (name_parts n) - 1) \<and>
      name_parts n = given_name (parse_name n) # middle_names (parse_name n) @ [surname (parse_name n)]"
    if "3 \<le> length (name_parts n)"
  proof -
    from that have ne: "name_parts n \<noteq> []" by auto
    from that have l: "length (name_parts n) \<noteq> 1" "length (name_parts n) \<noteq> 2" by auto
    have p: "parse_name n =
        \<lparr>given_name = name_parts n ! 0, middle_names = butlast (tl (name_parts n)),
         surname = last (name_parts n),
         maiden_name = fst (extract_maiden nee_patterns (strip n)),
         suffixes =
           (if fst (extract_suffixes (snd (extract_maiden nee_patterns (strip n)))) = [] then None
            else Some (fst (extract_suffixes (snd (extract_maiden nee_patterns (strip n))))))\<rparr>"
      unfolding parse_name_by_parts [of n] Let_def using ne l by simp
    show ?thesis
      using first_between_last [OF that] ne by (simp add: p last_conv_nth)
  qed
  have short: "(length (name_parts n) = 0 \<longrightarrow>
      given_name (parse_name n) = ''Unknown'' \<and> middle_names (parse_name n) = [] \<and>
      surname (parse_name n) = ''Unknown'') \<and>
   (length (name_parts n) = 1 \<longrightarrow>
      given_name (parse_name n) = name_parts n ! 0 \<and> middle_names (parse_name n) = [] \<and>
      surname (parse_name n) = ''Unknown'') \<and>
   (length (name_parts n) = 2 \<longrightarrow>
      given_name (parse_name n) = name_parts n ! 0 \<and> middle_names (parse_name n) = [] \<and>
      surname (parse_name n) = name_parts n ! 1)"
    unfolding parse_name_by_parts [of n] Let_def by simp
  from short long name_parts_tokens [of _ n] show ?thesis by blast
qed

text \<open>The parts of four names, with none, one, two and four tokens.\<close>

lemma name_parts_examples:
  "name_parts ''  '' = []"
  "name_parts ''Madonna'' = [''Madonna'']"
  "name_parts ''John Smith'' = [''John'', ''Smith'']"
  "name_parts ''Eleanor Mae Beaumont Harding'' = [''Eleanor'', ''Mae'', ''Beaumont'', ''Harding'']"
  by (simp_all add: name_eval)

theorem parse_name_splits_remaining_tokens_witness:
  "length (name_parts ''  '') = 0 \<and>
   given_name (parse_name ''  '') = ''Unknown'' \<and> surname (parse_name ''  '') = ''Unknown'' \<and>
   length (name_parts ''Madonna'') = 1 \<and>
   given_name (parse_name ''Madonna'') = ''Madonna'' \<and> surname (parse_name ''Madonna'') = ''Unknown'' \<and>
   length (name_parts ''John Smith'') = 2 \<and>
   given_name (parse_name ''John Smith'') = ''John'' \<and> surname (parse_name ''John Smith'') = ''Smith'' \<and>
   3 \<le> length (name_parts ''Eleanor Mae Beaumont Harding'') \<and>
   given_name (parse_name ''Eleanor Mae Beaumont Harding'') = ''Eleanor'' \<and>
   middle_names (parse_name ''Eleanor Mae Beaumont Harding'') = [''Mae'', ''Beaumont''] \<and>
   surname (parse_name ''Eleanor Mae Beaumont Harding'') = ''Harding''"
proof -
  note e = name_parts_examples
  have t0: "given_name (parse_name ''  '') = ''Unknown'' \<and> surname (parse_name ''  '') = ''Unknown''"
    using parse_name_splits_remaining_tokens [of "''  ''"] unfolding e by simp
  have t1: "given_name (parse_name ''Madonna'') = ''Madonna'' \<and>
      surname (parse_name ''Madonna'') = ''Unknown''"
    using parse_name_splits_remaining_tokens [of "''Madonna''"] unfolding e by simp
  have t2: "given_name (parse_name ''John Smith'') = ''John'' \<and>
      surname (parse_name ''John Smith'') = ''Smith''"
    using parse_name_splits_remaining_tokens [of "''John Smith''"] unfolding e by simp
  let ?n = "''Eleanor Mae Beaumont Harding''"
  have h: "3 \<le> length (name_parts ?n)" unfolding e by simp
  from parse_name_splits_remaining_tokens [of ?n] h
  have c1: "given_name (parse_name ?n) = name_parts ?n ! 0"
    and c2: "surname (parse_name ?n) = name_parts ?n ! (length (name_parts ?n) - 1)"
    and c3: "name_parts ?n =
        given_name (parse_name ?n) # middle_names (parse_name ?n) @ [surname (parse_name ?n)]"
    by blast+
  from c3 have "middle_names (parse_name ?n) = butlast (tl (name_parts ?n))"
    by (metis butlast_snoc list.sel(3))
  then have m: "middle_names (parse_name ?n) = [''Mae'', ''Beaumont'']"
    unfolding e by simp
  from c1 have g: "given_name (parse_name ?n) = ''Eleanor''" unfolding e by simp
  from c2 have l: "surname (parse_name ?n) = ''Harding''" unfolding e by simp
  from t0 t1 t2 g m l show ?thesis unfolding e by simp
qed

text \<open>The examples of the specification, as the parser computes them.\<close>

lemma parse_name_John_Smith:
  "parse_name ''John Smith'' =
     \<lparr>given_name = ''John'', middle_names = [], surname = ''Smith'',
      maiden_name = None, suffixes = None\<rparr>"
  by (simp add: name_eval)

lemma parse_name_Mary_Johnson:
  "parse_name ''Mary Johnson'' =
     \<lparr>given_name = ''Mary'', middle_names = [], surname = ''Johnson'',
      maiden_name = None, suffixes = None\<rparr>"
  by (simp add: name_eval)

lemma parse_name_nee:
  "parse_name (''Mary Smith (n'' @ [CHR 0xE9] @ ''e Jones)'') =
     \<lparr>given_name = ''Mary'', middle_names = [], surname = ''Smith'',
      maiden_name = Some ''Jones'', suffixes = None\<rparr>"
  by (simp add: name_eval)

text \<open>
  The dot of "Jr." is not part of the match, because \<open>\b\<close> does not hold between a dot and
  the end of the string: it stays in the name and becomes the last token.
\<close>

lemma parse_name_Jr_dot:
  "parse_name ''John Smith Jr.'' =
     \<lparr>given_name = ''John'', middle_names = [''Smith''], surname = ''.'',
      maiden_name = None, suffixes = Some [''Jr'']\<rparr>"
  by (simp add: name_eval)

section \<open>Properties of the scorer\<close>

lemma floor_rat_numeral: "\<lfloor>numeral a / numeral b :: rat\<rfloor> = numeral a div numeral b"
  by (metis floor_divide_of_int_eq of_int_numeral)

lemma floor_rat_neg_numeral: "\<lfloor>- (numeral a / numeral b) :: rat\<rfloor> = - numeral a div numeral b"
  by (metis floor_divide_of_int_eq of_int_numeral of_int_minus minus_divide_left)

lemmas float_eval = float_literal_def float_add_def round_double_def round_half_even_def pow2_def
  binade.simps floor_rat_numeral floor_rat_neg_numeral Let_def

text \<open>The float literals of the scorer and of the resolver, as the doubles they denote.\<close>

lemma float_literals:
  "float_literal 0.0 = 0"
  "float_literal 0.25 = 1 / 4"
  "float_literal 0.2 = 3602879701896397 / 18014398509481984"
  "float_literal 0.1 = 3602879701896397 / 36028797018963968"
  "float_literal 0.5 = 1 / 2"
  "float_literal 0.45 = 8106479329266893 / 18014398509481984"
  "float_literal 0.3 = 5404319552844595 / 18014398509481984"
  "float_literal 1.0 = 1"
  "float_literal 0.6 = 5404319552844595 / 9007199254740992"
  by (simp_all add: float_eval)

text \<open>The sums the name score goes through.\<close>

lemma name_sums:
  "float_add (0) (1 / 4) = 1 / 4"
  "float_add (1 / 4) (1 / 4) = 1 / 2"
  "float_add (1 / 4) (3602879701896397 / 18014398509481984) = 8106479329266893 / 18014398509481984"
  "float_add (1 / 4) (3602879701896397 / 36028797018963968) = 3152519739159347 / 9007199254740992"
  "float_add (1 / 2) (3602879701896397 / 36028797018963968) = 5404319552844595 / 9007199254740992"
  "float_add (8106479329266893 / 18014398509481984) (3602879701896397 / 36028797018963968) = 2476979795053773 / 4503599627370496"
  by (simp_all add: float_eval)

text \<open>The sums of a name score and a year score.\<close>

lemma final_sums:
  "float_add (0) (0) = 0"
  "float_add (0) (1 / 2) = 1 / 2"
  "float_add (0) (8106479329266893 / 18014398509481984) = 8106479329266893 / 18014398509481984"
  "float_add (0) (5404319552844595 / 18014398509481984) = 5404319552844595 / 18014398509481984"
  "float_add (1 / 4) (0) = 1 / 4"
  "float_add (1 / 4) (1 / 2) = 3 / 4"
  "float_add (1 / 4) (8106479329266893 / 18014398509481984) = 3152519739159347 / 4503599627370496"
  "float_add (1 / 4) (5404319552844595 / 18014398509481984) = 2476979795053773 / 4503599627370496"
  "float_add (1 / 2) (0) = 1 / 2"
  "float_add (1 / 2) (1 / 2) = 1"
  "float_add (1 / 2) (8106479329266893 / 18014398509481984) = 4278419646001971 / 4503599627370496"
  "float_add (1 / 2) (5404319552844595 / 18014398509481984) = 3602879701896397 / 4503599627370496"
  "float_add (8106479329266893 / 18014398509481984) (0) = 8106479329266893 / 18014398509481984"
  "float_add (8106479329266893 / 18014398509481984) (1 / 2) = 4278419646001971 / 4503599627370496"
  "float_add (8106479329266893 / 18014398509481984) (8106479329266893 / 18014398509481984) = 8106479329266893 / 9007199254740992"
  "float_add (8106479329266893 / 18014398509481984) (5404319552844595 / 18014398509481984) = 3 / 4"
  "float_add (3152519739159347 / 9007199254740992) (0) = 3152519739159347 / 9007199254740992"
  "float_add (3152519739159347 / 9007199254740992) (1 / 2) = 7656119366529843 / 9007199254740992"
  "float_add (3152519739159347 / 9007199254740992) (8106479329266893 / 18014398509481984) = 3602879701896397 / 4503599627370496"
  "float_add (3152519739159347 / 9007199254740992) (5404319552844595 / 18014398509481984) = 1463669878895411 / 2251799813685248"
  "float_add (5404319552844595 / 9007199254740992) (0) = 5404319552844595 / 9007199254740992"
  "float_add (5404319552844595 / 9007199254740992) (1 / 2) = 2476979795053773 / 2251799813685248"
  "float_add (5404319552844595 / 9007199254740992) (8106479329266893 / 18014398509481984) = 4728779608739021 / 4503599627370496"
  "float_add (5404319552844595 / 9007199254740992) (5404319552844595 / 18014398509481984) = 2026619832316723 / 2251799813685248"
  "float_add (2476979795053773 / 4503599627370496) (0) = 2476979795053773 / 4503599627370496"
  "float_add (2476979795053773 / 4503599627370496) (1 / 2) = 4728779608739021 / 4503599627370496"
  "float_add (2476979795053773 / 4503599627370496) (8106479329266893 / 18014398509481984) = 1"
  "float_add (2476979795053773 / 4503599627370496) (5404319552844595 / 18014398509481984) = 1914029841632461 / 2251799813685248"
  by (simp_all add: float_eval)

text \<open>The doubles nearest to the exact values of the reference definition.\<close>

lemma nearest_doubles:
  "round_double (0) = 0"
  "round_double (1 / 4) = 1 / 4"
  "round_double (3 / 10) = 5404319552844595 / 18014398509481984"
  "round_double (7 / 20) = 3152519739159347 / 9007199254740992"
  "round_double (9 / 20) = 8106479329266893 / 18014398509481984"
  "round_double (1 / 2) = 1 / 2"
  "round_double (11 / 20) = 2476979795053773 / 4503599627370496"
  "round_double (3 / 5) = 5404319552844595 / 9007199254740992"
  "round_double (13 / 20) = 5854679515581645 / 9007199254740992"
  "round_double (7 / 10) = 3152519739159347 / 4503599627370496"
  "round_double (3 / 4) = 3 / 4"
  "round_double (4 / 5) = 3602879701896397 / 4503599627370496"
  "round_double (17 / 20) = 7656119366529843 / 9007199254740992"
  "round_double (9 / 10) = 8106479329266893 / 9007199254740992"
  "round_double (19 / 20) = 4278419646001971 / 4503599627370496"
  "round_double (1) = 1"
  by (simp_all add: float_eval)

lemma name_score_pairs:
  "(name_score a b, spec_name_contribution a b) \<in>
     {(0, 0), (1 / 4, 1 / 4), (1 / 2, 1 / 2), (8106479329266893 / 18014398509481984, 9 / 20), (3152519739159347 / 9007199254740992, 7 / 20), (5404319552844595 / 9007199254740992, 3 / 5), (2476979795053773 / 4503599627370496, 11 / 20)}"
  unfolding name_score_def spec_name_contribution_def Let_def float_literals
  by (simp add: name_sums)

lemma year_score_pairs:
  "(year_score y1 y2, spec_year_contribution (known_year y1) (known_year y2)) \<in>
     {(0, 0), (1 / 2, 1 / 2), (8106479329266893 / 18014398509481984, 9 / 20), (5404319552844595 / 18014398509481984, 3 / 10)}"
  unfolding year_score_def Let_def float_literals
  by (cases y1; cases y2)
    (simp_all add: year_truthy_def spec_year_contribution_def known_year_def)

lemma clamped_sum_0:
  assumes "ns = 0" and "sn = 0"
    and "(ys, sy) \<in> {(0, 0), (1 / 2, 1 / 2), (8106479329266893 / 18014398509481984, 9 / 20), (5404319552844595 / 18014398509481984, 3 / 10)}"
  shows "\<bar>max 0 (min (float_add ns ys) 1) - max 0 (min 1 (sn + sy))\<bar> \<le> 1 / 2 ^ 53 \<and>
         (1 / 2 \<le> max 0 (min (float_add ns ys) 1)) = (1 / 2 \<le> max 0 (min 1 (sn + sy))) \<and>
         (\<not> (sy = 3 / 10 \<and> sn \<in> {7 / 20, 11 / 20, 3 / 5}) \<longrightarrow>
            max 0 (min (float_add ns ys) 1) = round_double (max 0 (min 1 (sn + sy))))"
  using assms(3) unfolding assms(1,2)
  by (elim insertE emptyE Pair_inject; hypsubst; simp add: final_sums nearest_doubles)

lemma clamped_sum_1:
  assumes "ns = 1 / 4" and "sn = 1 / 4"
    and "(ys, sy) \<in> {(0, 0), (1 / 2, 1 / 2), (8106479329266893 / 18014398509481984, 9 / 20), (5404319552844595 / 18014398509481984, 3 / 10)}"
  shows "\<bar>max 0 (min (float_add ns ys) 1) - max 0 (min 1 (sn + sy))\<bar> \<le> 1 / 2 ^ 53 \<and>
         (1 / 2 \<le> max 0 (min (float_add ns ys) 1)) = (1 / 2 \<le> max 0 (min 1 (sn + sy))) \<and>
         (\<not> (sy = 3 / 10 \<and> sn \<in> {7 / 20, 11 / 20, 3 / 5}) \<longrightarrow>
            max 0 (min (float_add ns ys) 1) = round_double (max 0 (min 1 (sn + sy))))"
  using assms(3) unfolding assms(1,2)
  by (elim insertE emptyE Pair_inject; hypsubst; simp add: final_sums nearest_doubles)

lemma clamped_sum_2:
  assumes "ns = 1 / 2" and "sn = 1 / 2"
    and "(ys, sy) \<in> {(0, 0), (1 / 2, 1 / 2), (8106479329266893 / 18014398509481984, 9 / 20), (5404319552844595 / 18014398509481984, 3 / 10)}"
  shows "\<bar>max 0 (min (float_add ns ys) 1) - max 0 (min 1 (sn + sy))\<bar> \<le> 1 / 2 ^ 53 \<and>
         (1 / 2 \<le> max 0 (min (float_add ns ys) 1)) = (1 / 2 \<le> max 0 (min 1 (sn + sy))) \<and>
         (\<not> (sy = 3 / 10 \<and> sn \<in> {7 / 20, 11 / 20, 3 / 5}) \<longrightarrow>
            max 0 (min (float_add ns ys) 1) = round_double (max 0 (min 1 (sn + sy))))"
  using assms(3) unfolding assms(1,2)
  by (elim insertE emptyE Pair_inject; hypsubst; simp add: final_sums nearest_doubles)

lemma clamped_sum_3:
  assumes "ns = 8106479329266893 / 18014398509481984" and "sn = 9 / 20"
    and "(ys, sy) \<in> {(0, 0), (1 / 2, 1 / 2), (8106479329266893 / 18014398509481984, 9 / 20), (5404319552844595 / 18014398509481984, 3 / 10)}"
  shows "\<bar>max 0 (min (float_add ns ys) 1) - max 0 (min 1 (sn + sy))\<bar> \<le> 1 / 2 ^ 53 \<and>
         (1 / 2 \<le> max 0 (min (float_add ns ys) 1)) = (1 / 2 \<le> max 0 (min 1 (sn + sy))) \<and>
         (\<not> (sy = 3 / 10 \<and> sn \<in> {7 / 20, 11 / 20, 3 / 5}) \<longrightarrow>
            max 0 (min (float_add ns ys) 1) = round_double (max 0 (min 1 (sn + sy))))"
  using assms(3) unfolding assms(1,2)
  by (elim insertE emptyE Pair_inject; hypsubst; simp add: final_sums nearest_doubles)

lemma clamped_sum_4:
  assumes "ns = 3152519739159347 / 9007199254740992" and "sn = 7 / 20"
    and "(ys, sy) \<in> {(0, 0), (1 / 2, 1 / 2), (8106479329266893 / 18014398509481984, 9 / 20), (5404319552844595 / 18014398509481984, 3 / 10)}"
  shows "\<bar>max 0 (min (float_add ns ys) 1) - max 0 (min 1 (sn + sy))\<bar> \<le> 1 / 2 ^ 53 \<and>
         (1 / 2 \<le> max 0 (min (float_add ns ys) 1)) = (1 / 2 \<le> max 0 (min 1 (sn + sy))) \<and>
         (\<not> (sy = 3 / 10 \<and> sn \<in> {7 / 20, 11 / 20, 3 / 5}) \<longrightarrow>
            max 0 (min (float_add ns ys) 1) = round_double (max 0 (min 1 (sn + sy))))"
  using assms(3) unfolding assms(1,2)
  by (elim insertE emptyE Pair_inject; hypsubst; simp add: final_sums nearest_doubles)

lemma clamped_sum_5:
  assumes "ns = 5404319552844595 / 9007199254740992" and "sn = 3 / 5"
    and "(ys, sy) \<in> {(0, 0), (1 / 2, 1 / 2), (8106479329266893 / 18014398509481984, 9 / 20), (5404319552844595 / 18014398509481984, 3 / 10)}"
  shows "\<bar>max 0 (min (float_add ns ys) 1) - max 0 (min 1 (sn + sy))\<bar> \<le> 1 / 2 ^ 53 \<and>
         (1 / 2 \<le> max 0 (min (float_add ns ys) 1)) = (1 / 2 \<le> max 0 (min 1 (sn + sy))) \<and>
         (\<not> (sy = 3 / 10 \<and> sn \<in> {7 / 20, 11 / 20, 3 / 5}) \<longrightarrow>
            max 0 (min (float_add ns ys) 1) = round_double (max 0 (min 1 (sn + sy))))"
  using assms(3) unfolding assms(1,2)
  by (elim insertE emptyE Pair_inject; hypsubst; simp add: final_sums nearest_doubles)

lemma clamped_sum_6:
  assumes "ns = 2476979795053773 / 4503599627370496" and "sn = 11 / 20"
    and "(ys, sy) \<in> {(0, 0), (1 / 2, 1 / 2), (8106479329266893 / 18014398509481984, 9 / 20), (5404319552844595 / 18014398509481984, 3 / 10)}"
  shows "\<bar>max 0 (min (float_add ns ys) 1) - max 0 (min 1 (sn + sy))\<bar> \<le> 1 / 2 ^ 53 \<and>
         (1 / 2 \<le> max 0 (min (float_add ns ys) 1)) = (1 / 2 \<le> max 0 (min 1 (sn + sy))) \<and>
         (\<not> (sy = 3 / 10 \<and> sn \<in> {7 / 20, 11 / 20, 3 / 5}) \<longrightarrow>
            max 0 (min (float_add ns ys) 1) = round_double (max 0 (min 1 (sn + sy))))"
  using assms(3) unfolding assms(1,2)
  by (elim insertE emptyE Pair_inject; hypsubst; simp add: final_sums nearest_doubles)

lemma clamped_sum:
  assumes "(ns, sn) \<in>
     {(0, 0), (1 / 4, 1 / 4), (1 / 2, 1 / 2), (8106479329266893 / 18014398509481984, 9 / 20), (3152519739159347 / 9007199254740992, 7 / 20), (5404319552844595 / 9007199254740992, 3 / 5), (2476979795053773 / 4503599627370496, 11 / 20)}"
    and "(ys, sy) \<in> {(0, 0), (1 / 2, 1 / 2), (8106479329266893 / 18014398509481984, 9 / 20), (5404319552844595 / 18014398509481984, 3 / 10)}"
  shows "\<bar>max 0 (min (float_add ns ys) 1) - max 0 (min 1 (sn + sy))\<bar> \<le> 1 / 2 ^ 53 \<and>
         (1 / 2 \<le> max 0 (min (float_add ns ys) 1)) = (1 / 2 \<le> max 0 (min 1 (sn + sy))) \<and>
         (\<not> (sy = 3 / 10 \<and> sn \<in> {7 / 20, 11 / 20, 3 / 5}) \<longrightarrow>
            max 0 (min (float_add ns ys) 1) = round_double (max 0 (min 1 (sn + sy))))"
proof -
  from assms(1) consider
    "ns = 0" "sn = 0"
    | "ns = 1 / 4" "sn = 1 / 4"
    | "ns = 1 / 2" "sn = 1 / 2"
    | "ns = 8106479329266893 / 18014398509481984" "sn = 9 / 20"
    | "ns = 3152519739159347 / 9007199254740992" "sn = 7 / 20"
    | "ns = 5404319552844595 / 9007199254740992" "sn = 3 / 5"
    | "ns = 2476979795053773 / 4503599627370496" "sn = 11 / 20"
    by auto
  then show ?thesis
  proof cases
    case 1
    then show ?thesis using assms(2) by (rule clamped_sum_0)
  next
    case 2
    then show ?thesis using assms(2) by (rule clamped_sum_1)
  next
    case 3
    then show ?thesis using assms(2) by (rule clamped_sum_2)
  next
    case 4
    then show ?thesis using assms(2) by (rule clamped_sum_3)
  next
    case 5
    then show ?thesis using assms(2) by (rule clamped_sum_4)
  next
    case 6
    then show ?thesis using assms(2) by (rule clamped_sum_5)
  next
    case 7
    then show ?thesis using assms(2) by (rule clamped_sum_6)
  qed
qed

lemma image_differs: "f ` A \<noteq> f ` B \<Longrightarrow> A \<noteq> B"
  by auto

lemma heuristic_match_score_rounded:
  assumes "\<not> suffixes_differ_in_case_only n1 n2"
  shows "\<bar>heuristic_match_score n1 y1 n2 y2 - spec_score n1 (known_year y1) n2 (known_year y2)\<bar>
           \<le> 1 / 2 ^ 53 \<and>
         (1 / 2 \<le> heuristic_match_score n1 y1 n2 y2) =
           (1 / 2 \<le> spec_score n1 (known_year y1) n2 (known_year y2)) \<and>
         (\<not> rounds_to_neighbour n1 (known_year y1) n2 (known_year y2) \<longrightarrow>
            heuristic_match_score n1 y1 n2 y2 =
              round_double (spec_score n1 (known_year y1) n2 (known_year y2)))"
proof (cases "has_suffixes (parse_name n1) \<and> has_suffixes (parse_name n2) \<and>
    suffix_set (parse_name n1) \<noteq> suffix_set (parse_name n2)")
  case True
  with assms have "lower ` suffix_set (parse_name n1) \<noteq> lower ` suffix_set (parse_name n2)"
    by (simp add: suffixes_differ_in_case_only_def)
  with True have s: "spec_score n1 (known_year y1) n2 (known_year y2) = 0"
    by (simp add: spec_score_def)
  from True have h: "heuristic_match_score n1 y1 n2 y2 = 0"
    unfolding heuristic_match_score_def Let_def float_literals by simp
  show ?thesis unfolding s h by (simp add: nearest_doubles)
next
  case False
  then have "\<not> (has_suffixes (parse_name n1) \<and> has_suffixes (parse_name n2) \<and>
      lower ` suffix_set (parse_name n1) \<noteq> lower ` suffix_set (parse_name n2))"
    using image_differs [of lower "suffix_set (parse_name n1)" "suffix_set (parse_name n2)"]
    by blast
  then have s: "spec_score n1 (known_year y1) n2 (known_year y2) =
      max 0 (min 1 (spec_name_contribution (parse_name n1) (parse_name n2)
        + spec_year_contribution (known_year y1) (known_year y2)))"
    unfolding spec_score_def by (rule if_not_P)
  from False have h: "heuristic_match_score n1 y1 n2 y2 =
      max 0 (min (float_add (name_score (parse_name n1) (parse_name n2)) (year_score y1 y2)) 1)"
    unfolding heuristic_match_score_def Let_def float_literals by (rule if_not_P)
  have r: "rounds_to_neighbour n1 (known_year y1) n2 (known_year y2) =
      (spec_year_contribution (known_year y1) (known_year y2) = 3 / 10 \<and>
       spec_name_contribution (parse_name n1) (parse_name n2) \<in> {7 / 20, 11 / 20, 3 / 5})"
    by (simp add: rounds_to_neighbour_def)
  show ?thesis
    unfolding s h r
    by (rule clamped_sum [OF name_score_pairs year_score_pairs])
qed

lemma heuristic_match_score_bounds:
  "0 \<le> heuristic_match_score n1 y1 n2 y2 \<and> heuristic_match_score n1 y1 n2 y2 \<le> 1"
  unfolding heuristic_match_score_def Let_def float_literals by simp

text \<open>The scores of the examples of the specification.\<close>

lemmas score_eval = heuristic_match_score_def name_score_def year_score_def Let_def float_literals

lemmas score_simps = has_suffixes_def suffix_set_def all_surnames_def all_parts_def
  year_truthy_def lower_def py_lower_def name_sums final_sums

lemma score_John_Smith_John_Smith:
  "heuristic_match_score ''John Smith'' (Some 1950) ''John Smith'' (Some 1950) = 1"
  unfolding score_eval by (simp add: score_simps parse_name_John_Smith)

lemma score_John_Smith_Mary_Johnson:
  "heuristic_match_score ''John Smith'' (Some 1950) ''Mary Johnson'' (Some 1950) = 1 / 2"
  unfolding score_eval by (simp add: score_simps parse_name_John_Smith parse_name_Mary_Johnson)

lemma score_John_Smith_thirty_years:
  "heuristic_match_score ''John Smith'' (Some 1950) ''John Smith'' (Some 1980) = 1 / 2"
  unfolding score_eval by (simp add: score_simps parse_name_John_Smith)

text \<open>
  C5, as stated, fails where a birth year is 0: the source tests the years for truth, so a
  year of 0 counts as no year, and two people with different names and the year 0 score 0.0
  where the rules of the claim give 0.5 for the exact match of the years.
\<close>

theorem heuristic_match_score_year_zero_counterexample:
  "heuristic_match_score ''John Smith'' (Some 0) ''Mary Johnson'' (Some 0) = 0 \<and>
   spec_score ''John Smith'' (Some 0) ''Mary Johnson'' (Some 0) = 1 / 2 \<and>
   heuristic_match_score ''John Smith'' (Some 0) ''Mary Johnson'' (Some 0)
     \<noteq> spec_score ''John Smith'' (Some 0) ''Mary Johnson'' (Some 0)"
proof -
  have h: "heuristic_match_score ''John Smith'' (Some 0) ''Mary Johnson'' (Some 0) = 0"
    unfolding score_eval by (simp add: score_simps parse_name_John_Smith parse_name_Mary_Johnson)
  have s: "spec_score ''John Smith'' (Some 0) ''Mary Johnson'' (Some 0) = 1 / 2"
    by (simp add: spec_score_def spec_name_contribution_def spec_year_contribution_def
        has_suffixes_def lower_def py_lower_def parse_name_John_Smith parse_name_Mary_Johnson)
  show ?thesis unfolding h s by simp
qed

text \<open>
  It fails, too, where the float sum is not the exact one: "Mary Ann Jones" born 1950 and
  "Mary Ann Smith" born 1953 score 0.25 + 0.1 + 0.3 in floats, 0.6499999999999999, which is
  neither 0.65 nor the double nearest to it.
\<close>

lemma parse_name_Mary_Ann_Jones:
  "parse_name ''Mary Ann Jones'' =
     \<lparr>given_name = ''Mary'', middle_names = [''Ann''], surname = ''Jones'',
      maiden_name = None, suffixes = None\<rparr>"
  by (simp add: name_eval)

lemma parse_name_Mary_Ann_Smith:
  "parse_name ''Mary Ann Smith'' =
     \<lparr>given_name = ''Mary'', middle_names = [''Ann''], surname = ''Smith'',
      maiden_name = None, suffixes = None\<rparr>"
  by (simp add: name_eval)

lemma heuristic_match_score_float_sum:
  "heuristic_match_score ''Mary Ann Jones'' (Some 1950) ''Mary Ann Smith'' (Some 1953) =
     1463669878895411 / 2251799813685248 \<and>
   spec_score ''Mary Ann Jones'' (Some 1950) ''Mary Ann Smith'' (Some 1953) = 13 / 20 \<and>
   round_double (13 / 20) = 5854679515581645 / 9007199254740992 \<and>
   rounds_to_neighbour ''Mary Ann Jones'' (Some 1950) ''Mary Ann Smith'' (Some 1953)"
proof -
  have h: "heuristic_match_score ''Mary Ann Jones'' (Some 1950) ''Mary Ann Smith'' (Some 1953) =
     1463669878895411 / 2251799813685248"
    unfolding score_eval
    by (simp add: score_simps parse_name_Mary_Ann_Jones parse_name_Mary_Ann_Smith)
  have n: "spec_name_contribution (parse_name ''Mary Ann Jones'') (parse_name ''Mary Ann Smith'')
      = 7 / 20"
    by (simp add: spec_name_contribution_def all_surnames_def all_parts_def lower_def py_lower_def
        parse_name_Mary_Ann_Jones parse_name_Mary_Ann_Smith)
  have y: "spec_year_contribution (Some 1950) (Some 1953) = 3 / 10"
    by (simp add: spec_year_contribution_def)
  have s: "spec_score ''Mary Ann Jones'' (Some 1950) ''Mary Ann Smith'' (Some 1953) = 13 / 20"
    unfolding spec_score_def n y
    by (simp add: has_suffixes_def parse_name_Mary_Ann_Jones)
  have r: "rounds_to_neighbour ''Mary Ann Jones'' (Some 1950) ''Mary Ann Smith'' (Some 1953)"
    unfolding rounds_to_neighbour_def n y by simp
  from h s r show ?thesis by (simp add: nearest_doubles)
qed

text \<open>
  And it fails where two suffixes differ in the case of their letters only: "John Smith JR"
  and "John Smith Jr" score 0.0, because the source compares the suffix sets as they were
  written, while every other comparison of the scorer is made in lower case.
\<close>

lemma parse_name_John_Smith_JR:
  "parse_name ''John Smith JR'' =
     \<lparr>given_name = ''John'', middle_names = [], surname = ''Smith'',
      maiden_name = None, suffixes = Some [''JR'']\<rparr>"
  by (simp add: name_eval)

lemma parse_name_John_Smith_Jr:
  "parse_name ''John Smith Jr'' =
     \<lparr>given_name = ''John'', middle_names = [], surname = ''Smith'',
      maiden_name = None, suffixes = Some [''Jr'']\<rparr>"
  by (simp add: name_eval)

lemma heuristic_match_score_suffix_case:
  "heuristic_match_score ''John Smith JR'' (Some 1950) ''John Smith Jr'' (Some 1950) = 0 \<and>
   spec_score ''John Smith JR'' (Some 1950) ''John Smith Jr'' (Some 1950) = 1 \<and>
   suffixes_differ_in_case_only ''John Smith JR'' ''John Smith Jr''"
proof -
  have h: "heuristic_match_score ''John Smith JR'' (Some 1950) ''John Smith Jr'' (Some 1950) = 0"
    unfolding score_eval
    by (simp add: score_simps parse_name_John_Smith_JR parse_name_John_Smith_Jr)
  have l: "lower ` suffix_set (parse_name ''John Smith JR'') =
      lower ` suffix_set (parse_name ''John Smith Jr'')"
    by (simp add: suffix_set_def lower_def py_lower_def parse_name_John_Smith_JR
        parse_name_John_Smith_Jr)
  have n: "spec_name_contribution (parse_name ''John Smith JR'') (parse_name ''John Smith Jr'')
      = 1 / 2"
    by (simp add: spec_name_contribution_def all_surnames_def all_parts_def lower_def py_lower_def
        parse_name_John_Smith_JR parse_name_John_Smith_Jr)
  have s: "spec_score ''John Smith JR'' (Some 1950) ''John Smith Jr'' (Some 1950) = 1"
    unfolding spec_score_def l n by (simp add: spec_year_contribution_def)
  have d: "suffixes_differ_in_case_only ''John Smith JR'' ''John Smith Jr''"
    unfolding suffixes_differ_in_case_only_def l
    by (simp add: has_suffixes_def suffix_set_def parse_name_John_Smith_JR
        parse_name_John_Smith_Jr)
  from h s d show ?thesis by simp
qed

text \<open>
  C5, amended.  With a birth year of 0 counted as no birth year, and for all names but those
  whose suffixes differ in the case of their letters only, the score is the reference
  definition computed in floats: 0.0 when both names carry suffixes and the suffix sets
  differ; else the name contribution (0 when the given names differ; else 0.25, plus 0.25
  when the surname sets meet, else plus 0.20 when either surname is among the other's name
  tokens, plus 0.10 when both have middle names and they meet) plus the year contribution
  (0.5 for equal years, 0.45 within 2, 0.3 within 5, else 0), clamped to the interval from
  0 to 1.  The float result is within \<open>2\<^sup>-\<^sup>5\<^sup>3\<close> of the exact value of the reference
  definition, lies on the same side of the threshold 0.5, and is the double nearest to the
  exact value, except where the middle-name bonus meets a year contribution of 0.3.  The
  score is between 0 and 1 for every input, and the three examples of the specification
  score 1.0, 0.5 and 0.5.
\<close>

theorem heuristic_match_score_is_rounded_reference:
  "(\<not> suffixes_differ_in_case_only n1 n2 \<longrightarrow>
      \<bar>heuristic_match_score n1 y1 n2 y2 - spec_score n1 (known_year y1) n2 (known_year y2)\<bar>
        \<le> 1 / 2 ^ 53 \<and>
      (1 / 2 \<le> heuristic_match_score n1 y1 n2 y2) =
        (1 / 2 \<le> spec_score n1 (known_year y1) n2 (known_year y2)) \<and>
      (\<not> rounds_to_neighbour n1 (known_year y1) n2 (known_year y2) \<longrightarrow>
         heuristic_match_score n1 y1 n2 y2 =
           round_double (spec_score n1 (known_year y1) n2 (known_year y2)))) \<and>
   0 \<le> heuristic_match_score n1 y1 n2 y2 \<and> heuristic_match_score n1 y1 n2 y2 \<le> 1 \<and>
   heuristic_match_score ''John Smith'' (Some 1950) ''John Smith'' (Some 1950) = 1.0 \<and>
   heuristic_match_score ''John Smith'' (Some 1950) ''Mary Johnson'' (Some 1950) = 0.5 \<and>
   heuristic_match_score ''John Smith'' (Some 1950) ''John Smith'' (Some 1980) = 0.5"
proof -
  have e: "heuristic_match_score ''John Smith'' (Some 1950) ''John Smith'' (Some 1950) = 1.0"
    "heuristic_match_score ''John Smith'' (Some 1950) ''Mary Johnson'' (Some 1950) = 0.5"
    "heuristic_match_score ''John Smith'' (Some 1950) ''John Smith'' (Some 1980) = 0.5"
    by (simp_all add: score_John_Smith_John_Smith score_John_Smith_Mary_Johnson
        score_John_Smith_thirty_years)
  from heuristic_match_score_rounded [of n1 n2 y1 y2]
    heuristic_match_score_bounds [of n1 y1 n2 y2] e
  show ?thesis by blast
qed

text \<open>The amended claim at a maiden-name pair: "Mary Jones" and "Mary Jones Smith", 3 years apart.\<close>

lemma parse_name_Mary_Jones:
  "parse_name ''Mary Jones'' =
     \<lparr>given_name = ''Mary'', middle_names = [], surname = ''Jones'',
      maiden_name = None, suffixes = None\<rparr>"
  by (simp add: name_eval)

lemma parse_name_Mary_Jones_Smith:
  "parse_name ''Mary Jones Smith'' =
     \<lparr>given_name = ''Mary'', middle_names = [''Jones''], surname = ''Smith'',
      maiden_name = None, suffixes = None\<rparr>"
  by (simp add: name_eval)

theorem heuristic_match_score_is_rounded_reference_witness:
  "\<not> suffixes_differ_in_case_only ''Mary Jones'' ''Mary Jones Smith'' \<and>
   \<not> rounds_to_neighbour ''Mary Jones'' (known_year (Some 1950)) ''Mary Jones Smith''
        (known_year (Some 1953)) \<and>
   spec_score ''Mary Jones'' (known_year (Some 1950)) ''Mary Jones Smith'' (known_year (Some 1953))
     = 3 / 4 \<and>
   heuristic_match_score ''Mary Jones'' (Some 1950) ''Mary Jones Smith'' (Some 1953) = 3 / 4"
proof -
  have d: "\<not> suffixes_differ_in_case_only ''Mary Jones'' ''Mary Jones Smith''"
    by (simp add: suffixes_differ_in_case_only_def has_suffixes_def parse_name_Mary_Jones)
  have n: "spec_name_contribution (parse_name ''Mary Jones'') (parse_name ''Mary Jones Smith'')
      = 9 / 20"
    by (simp add: spec_name_contribution_def all_surnames_def all_parts_def lower_def py_lower_def
        parse_name_Mary_Jones parse_name_Mary_Jones_Smith)
  have r: "\<not> rounds_to_neighbour ''Mary Jones'' (known_year (Some 1950)) ''Mary Jones Smith''
        (known_year (Some 1953))"
    unfolding rounds_to_neighbour_def n by simp
  have s: "spec_score ''Mary Jones'' (known_year (Some 1950)) ''Mary Jones Smith''
      (known_year (Some 1953)) = 3 / 4"
    unfolding spec_score_def n
    by (simp add: has_suffixes_def parse_name_Mary_Jones known_year_def
        spec_year_contribution_def)
  from heuristic_match_score_is_rounded_reference
    [of "''Mary Jones''" "''Mary Jones Smith''" "Some 1950" "Some 1953"] d r
  have "heuristic_match_score ''Mary Jones'' (Some 1950) ''Mary Jones Smith'' (Some 1953) =
      round_double (spec_score ''Mary Jones'' (known_year (Some 1950)) ''Mary Jones Smith''
        (known_year (Some 1953)))"
    by blast
  then have "heuristic_match_score ''Mary Jones'' (Some 1950) ''Mary Jones Smith'' (Some 1953)
      = 3 / 4"
    unfolding s by (simp add: nearest_doubles)
  with d r s show ?thesis by blast
qed

section \<open>Properties of the validate-and-correct loop\<close>

lemma correction_loop_run:
  assumes "correction_loop v correct b n d val st outs = (d', val', st', outs')"
    and "val = validate_extracted_data v d"
  shows "\<exists>new. outs' = outs @ new \<and> length new \<le> n \<and> d' = last (d # new) \<and>
           val' = validate_extracted_data v d' \<and>
           (\<forall>y \<in> set (butlast new). \<not> is_valid (validate_extracted_data v y)) \<and>
           (\<forall>y \<in> set new. \<exists>s t e. y = fst (correct s b t e)) \<and>
           oracle_chain v correct b st d new st' \<and>
           (is_valid val' \<and> new \<noteq> [] \<or> length new = n)"
  using assms
proof (induction n arbitrary: d val st outs)
  case 0
  then show ?case by auto
next
  case (Suc n)
  obtain d1 st1 where step: "correct st b d (errors val) = (d1, st1)"
    by (cases "correct st b d (errors val)")
  have d1: "d1 = fst (correct st b d (errors val))" using step by simp
  have step': "correct st b d (errors (validate_extracted_data v d)) = (d1, st1)"
    using step Suc.prems(2) by simp
  show ?case
  proof (cases "is_valid (validate_extracted_data v d1)")
    case True
    with step have "correction_loop v correct b (Suc n) d val st outs
        = (d1, validate_extracted_data v d1, st1, outs @ [d1])"
      by (simp add: Let_def)
    with Suc.prems(1) have r: "d' = d1" "val' = validate_extracted_data v d1"
        "outs' = outs @ [d1]" "st' = st1"
      by simp_all
    have c: "oracle_chain v correct b st d [d1] st'"
      using step' r by simp
    show ?thesis
      by (rule exI [of _ "[d1]"]) (use r True d1 c in auto)
  next
    case False
    with step have "correction_loop v correct b (Suc n) d val st outs
        = correction_loop v correct b n d1 (validate_extracted_data v d1) st1 (outs @ [d1])"
      by (simp add: Let_def)
    with Suc.prems(1) have
      rec: "correction_loop v correct b n d1 (validate_extracted_data v d1) st1 (outs @ [d1])
              = (d', val', st', outs')"
      by simp
    from Suc.IH [OF rec refl] obtain new where
      n1: "outs' = (outs @ [d1]) @ new" and n2: "length new \<le> n" and n3: "d' = last (d1 # new)"
      and n4: "val' = validate_extracted_data v d'"
      and n5: "\<forall>y \<in> set (butlast new). \<not> is_valid (validate_extracted_data v y)"
      and n6: "\<forall>y \<in> set new. \<exists>s t e. y = fst (correct s b t e)"
      and n8: "oracle_chain v correct b st1 d1 new st'"
      and n7: "is_valid val' \<and> new \<noteq> [] \<or> length new = n"
      by blast
    have b: "\<forall>y \<in> set (butlast (d1 # new)). \<not> is_valid (validate_extracted_data v y)"
      using n5 False by (cases new) auto
    have m: "\<forall>y \<in> set (d1 # new). \<exists>s t e. y = fst (correct s b t e)"
      using n6 d1 by auto
    have c: "oracle_chain v correct b st d (d1 # new) st'"
      using step' n8 by simp
    show ?thesis
      by (rule exI [of _ "d1 # new"]) (use n1 n2 n3 n4 n7 b m c in auto)
  qed
qed

lemma validate_and_correct_run:
  assumes "\<not> is_valid (validate_extracted_data v x)"
    and "validate_and_correct v m correct st b x = (d', val', st', outs)"
  shows "length outs \<le> nat m \<and> d' = last (x # outs) \<and>
         val' = validate_extracted_data v d' \<and>
         (\<forall>y \<in> set (butlast outs). \<not> is_valid (validate_extracted_data v y)) \<and>
         (\<forall>y \<in> set outs. \<exists>s t e. y = fst (correct s b t e)) \<and>
         oracle_chain v correct b st x outs st' \<and>
         (is_valid val' \<and> outs \<noteq> [] \<or> length outs = nat m)"
proof -
  from assms have "correction_loop v correct b (nat m) x (validate_extracted_data v x) st []
      = (d', val', st', outs)"
    by (simp add: validate_and_correct_def Let_def)
  from correction_loop_run [OF this refl] show ?thesis by auto
qed

lemma validate_and_correct_valid:
  "is_valid (validate_extracted_data v x) \<Longrightarrow>
     validate_and_correct v m correct st b x = (x, validate_extracted_data v x, st, [])"
  by (simp add: validate_and_correct_def Let_def)

text \<open>
  C4.  When the first validation fails, the loop makes at most the configured number of
  attempts.  The attempts are the list \<open>outs\<close>: each is the answer of one call of the
  oracle, to the biography, the data before it (the extracted data for the first, the
  answer before it for every later one) and the errors of the validation of that data, and
  the calls thread the state of the oracle.  The loop returns the last answer (the extracted
  data when there was no attempt) with the validation of that answer; every answer before
  the last was invalid; and it either stopped at a valid answer or used every attempt.  With
  an oracle whose answers never validate it makes exactly the configured number of attempts
  and returns the last answer with \<open>is_valid\<close> false.  The function is total: it returns
  for every oracle.
\<close>

theorem validate_and_correct_attempts:
  "\<not> is_valid (validate_extracted_data v x) \<longrightarrow>
     (case validate_and_correct v m correct st b x of
        (d', val', st', outs) \<Rightarrow>
          length outs \<le> nat m \<and> d' = last (x # outs) \<and>
          val' = validate_extracted_data v d' \<and>
          oracle_chain v correct b st x outs st' \<and>
          (\<forall>y \<in> set (butlast outs). \<not> is_valid (validate_extracted_data v y)) \<and>
          (is_valid val' \<and> outs \<noteq> [] \<or> length outs = nat m) \<and>
          ((\<forall>s t e. \<not> is_valid (validate_extracted_data v (fst (correct s b t e)))) \<longrightarrow>
             length outs = nat m \<and> (0 \<le> m \<longrightarrow> int (length outs) = m) \<and> \<not> is_valid val'))"
proof
  assume inv: "\<not> is_valid (validate_extracted_data v x)"
  obtain d' val' st' outs where r: "validate_and_correct v m correct st b x = (d', val', st', outs)"
    by (cases "validate_and_correct v m correct st b x") auto
  note run = validate_and_correct_run [OF inv r]
  have never: "length outs = nat m \<and> (0 \<le> m \<longrightarrow> int (length outs) = m) \<and> \<not> is_valid val'"
    if nv: "\<forall>s t e. \<not> is_valid (validate_extracted_data v (fst (correct s b t e)))"
  proof -
    have all: "\<forall>y \<in> set (x # outs). \<not> is_valid (validate_extracted_data v y)"
      using run nv inv by auto
    have "last (x # outs) \<in> set (x # outs)" by (rule last_in_set) simp
    with all run have iv: "\<not> is_valid val'" by blast
    with run have "length outs = nat m" by blast
    with iv show ?thesis by simp
  qed
  from run never have
    "length outs \<le> nat m \<and> d' = last (x # outs) \<and>
     val' = validate_extracted_data v d' \<and>
     oracle_chain v correct b st x outs st' \<and>
     (\<forall>y \<in> set (butlast outs). \<not> is_valid (validate_extracted_data v y)) \<and>
     (is_valid val' \<and> outs \<noteq> [] \<or> length outs = nat m) \<and>
     ((\<forall>s t e. \<not> is_valid (validate_extracted_data v (fst (correct s b t e)))) \<longrightarrow>
        length outs = nat m \<and> (0 \<le> m \<longrightarrow> int (length outs) = m) \<and> \<not> is_valid val')"
    by blast
  then show "case validate_and_correct v m correct st b x of
        (d', val', st', outs) \<Rightarrow>
          length outs \<le> nat m \<and> d' = last (x # outs) \<and>
          val' = validate_extracted_data v d' \<and>
          oracle_chain v correct b st x outs st' \<and>
          (\<forall>y \<in> set (butlast outs). \<not> is_valid (validate_extracted_data v y)) \<and>
          (is_valid val' \<and> outs \<noteq> [] \<or> length outs = nat m) \<and>
          ((\<forall>s t e. \<not> is_valid (validate_extracted_data v (fst (correct s b t e)))) \<longrightarrow>
             length outs = nat m \<and> (0 \<le> m \<longrightarrow> int (length outs) = m) \<and> \<not> is_valid val')"
    unfolding r prod.case .
qed

section \<open>Properties of the merge engine and the scheduler\<close>

lemma merge_persons_queue: "creation_queue (merge_persons s keep_id merge_id) = creation_queue s"
  by (simp add: merge_persons_def log_line_def update_person_def delete_person_def Let_def
      split: option.splits)

lemma update_row_ids:
  "(\<And>p. p_id (f p) = p_id p) \<Longrightarrow> map p_id (update_row pid f ps) = map p_id ps"
  by (induction ps) auto

lemma merge_updates_id: "p_id (merge_updates k m row) = p_id row"
  by (simp add: merge_updates_def Let_def)

lemma find_delete_row:
  "distinct (map p_id ps) \<Longrightarrow> find (\<lambda>p. p_id p = pid) (delete_row pid ps) = None"
proof (induction ps)
  case Nil
  then show ?case by simp
next
  case (Cons a ps)
  show ?case
  proof (cases "p_id a = pid")
    case True
    with Cons.prems have "pid \<notin> p_id ` set ps" by auto
    then have "find (\<lambda>p. p_id p = pid) ps = None" by (auto simp: find_None_iff)
    with True show ?thesis by simp
  next
    case False
    with Cons show ?thesis by simp
  qed
qed

lemma merge_persons_deletes:
  assumes "get_by_id s keep_id = Some k" and "get_by_id s merge_id = Some m"
    and "distinct (map p_id (persons s))"
  shows "get_by_id (merge_persons s keep_id merge_id) merge_id = None"
proof -
  have ids: "map p_id (update_row keep_id (merge_updates k m) (persons s)) = map p_id (persons s)"
    by (rule update_row_ids) (rule merge_updates_id)
  have "find (\<lambda>p. p_id p = merge_id)
          (delete_row merge_id (update_row keep_id (merge_updates k m) (persons s))) = None"
    by (rule find_delete_row) (simp add: ids assms(3))
  with assms(1,2) show ?thesis
    by (simp add: merge_persons_def get_by_id_def update_person_def delete_person_def Let_def)
qed

lemma process_next_stale_entry:
  assumes "dequeue (creation_queue s) = (Some pid, q)" and "get_by_id s pid = None"
  shows "process_next sample s =
           (Returned_none, log_line (Error_person_not_found pid) (s\<lparr>creation_queue := q\<rparr>))"
  using assms by (simp add: process_next_def load_for_processing_def get_by_id_def)

text \<open>
  C10.  A merge leaves the queue as it was, so an entry for the merged person stays in it
  while the person's record is deleted (both records existing, ids being the primary key).
  When the scheduler later dequeues an id that has no record, it logs the error, returns
  None and the entry is gone from the queue; nothing is raised.
\<close>

theorem merge_keeps_queue_and_stale_entry_is_consumed:
  "creation_queue (merge_persons s keep_id drop_id) = creation_queue s \<and>
   (get_by_id s keep_id \<noteq> None \<and> get_by_id s drop_id \<noteq> None \<and>
    distinct (map p_id (persons s)) \<longrightarrow>
      get_by_id (merge_persons s keep_id drop_id) drop_id = None \<and>
      (\<forall>entry \<in> set (creation_queue s). person_id entry = drop_id \<longrightarrow>
         entry \<in> set (creation_queue (merge_persons s keep_id drop_id)))) \<and>
   (dequeue (creation_queue t) = (Some pid, q) \<and> get_by_id t pid = None \<longrightarrow>
      process_next sample t =
        (Returned_none, log_line (Error_person_not_found pid) (t\<lparr>creation_queue := q\<rparr>)))"
  using merge_persons_queue [of s keep_id drop_id]
    merge_persons_deletes [of s keep_id _ drop_id]
    process_next_stale_entry [of t pid q sample]
  by auto

text \<open>
  The merge of the two records of Mary Jones, keeping 10: record 20 is gone, its queue entry
  is not, and the next cycle of the scheduler returns None and empties the queue.
\<close>

lemma two_marys_merged:
  "merge_persons two_marys 10 20 =
     \<lparr>persons = [person_with_defaults 10 ''Mary'' ''Jones''],
      child_links = [(10, 30)], spouse_links = [],
      creation_queue = [\<lparr>person_id = 20, priority = 1, added_at = 0\<rparr>], log = []\<rparr>"
  by (simp add: merge_persons_def two_marys_def get_by_id_def person_with_defaults_def
      reassign_all_parent_links_def reassign_all_child_links_def reassign_spouse_links_def
      get_children_def get_parents_def get_spouses_def reassign_parent_def link_exists_def
      delete_link_def create_link_def delete_all_for_person_def update_person_def
      delete_person_def merge_updates_def str_truthy_def Let_def)

theorem merge_keeps_queue_and_stale_entry_is_consumed_witness:
  "get_by_id two_marys 10 \<noteq> None \<and> get_by_id two_marys 20 \<noteq> None \<and>
   distinct (map p_id (persons two_marys)) \<and>
   get_by_id (merge_persons two_marys 10 20) 20 = None \<and>
   creation_queue (merge_persons two_marys 10 20) = [\<lparr>person_id = 20, priority = 1, added_at = 0\<rparr>] \<and>
   dequeue (creation_queue (merge_persons two_marys 10 20)) = (Some 20, []) \<and>
   process_next hd (merge_persons two_marys 10 20) =
     (Returned_none,
      log_line (Error_person_not_found 20) ((merge_persons two_marys 10 20)\<lparr>creation_queue := []\<rparr>))"
proof -
  have a: "get_by_id two_marys 10 \<noteq> None \<and> get_by_id two_marys 20 \<noteq> None \<and>
      distinct (map p_id (persons two_marys))"
    by (simp add: two_marys_def get_by_id_def person_with_defaults_def)
  have q: "creation_queue (merge_persons two_marys 10 20) = [\<lparr>person_id = 20, priority = 1, added_at = 0\<rparr>]"
    by (simp add: two_marys_merged)
  have d: "dequeue (creation_queue (merge_persons two_marys 10 20)) = (Some 20, [])"
    unfolding q by (simp add: dequeue_def)
  have g: "get_by_id (merge_persons two_marys 10 20) 20 = None"
    by (simp add: two_marys_merged get_by_id_def person_with_defaults_def)
  from merge_keeps_queue_and_stale_entry_is_consumed
    [of two_marys 10 20 "merge_persons two_marys 10 20" 20 "[]" hd] a q d g
  show ?thesis by simp
qed

section \<open>Worked examples of the validation\<close>

lemma john_invalid:
  "\<not> is_valid (validate_extracted_data default_validator (extracted_with_years (Some 1950) (Some 1940)))"
  by (simp add: validate_extracted_data_def extracted_with_years_def default_validator_def
      get_year_def validate_lifespan_def year_truthy_def Let_def)

lemma john_valid:
  "is_valid (validate_extracted_data default_validator (extracted_with_years (Some 1950) (Some 2010)))"
  by (simp add: validate_extracted_data_def extracted_with_years_def default_validator_def
      get_year_def validate_lifespan_def year_truthy_def Let_def)

theorem validate_and_correct_attempts_witness:
  "\<not> is_valid (validate_extracted_data default_validator (extracted_with_years (Some 1950) (Some 1940))) \<and>
   validate_and_correct default_validator 2
      (\<lambda>st b d errs. (extracted_with_years (Some 1950) (Some (if st = 0 then 1939 else 1938)), Suc st)) 0
      ''biography'' (extracted_with_years (Some 1950) (Some 1940)) =
     (extracted_with_years (Some 1950) (Some 1938),
      validate_extracted_data default_validator (extracted_with_years (Some 1950) (Some 1938)),
      2,
      [extracted_with_years (Some 1950) (Some 1939), extracted_with_years (Some 1950) (Some 1938)]) \<and>
   \<not> is_valid (validate_extracted_data default_validator (extracted_with_years (Some 1950) (Some 1938)))"
proof -
  let ?x = "extracted_with_years (Some 1950) (Some 1940)"
  let ?c = "\<lambda>(st::nat) (b::string) (d::extracted_data) (errs::string list).
      (extracted_with_years (Some 1950) (Some (if st = 0 then 1939 else 1938)), Suc st)"
  obtain d' val' st' outs where
    r: "validate_and_correct default_validator 2 ?c 0 ''biography'' ?x = (d', val', st', outs)"
    by (cases "validate_and_correct default_validator 2 ?c 0 ''biography'' ?x") auto
  have nv: "\<forall>s t e. \<not> is_valid (validate_extracted_data default_validator
      (fst (?c s ''biography'' t e)))"
    by (simp add: validate_extracted_data_def extracted_with_years_def default_validator_def
        get_year_def validate_lifespan_def year_truthy_def Let_def)
  have t: "\<not> is_valid (validate_extracted_data default_validator ?x) \<longrightarrow>
      length outs \<le> nat 2 \<and> d' = last (?x # outs) \<and>
      val' = validate_extracted_data default_validator d' \<and>
      oracle_chain default_validator ?c ''biography'' 0 ?x outs st' \<and>
      (\<forall>y \<in> set (butlast outs). \<not> is_valid (validate_extracted_data default_validator y)) \<and>
      (is_valid val' \<and> outs \<noteq> [] \<or> length outs = nat 2) \<and>
      ((\<forall>s t e. \<not> is_valid (validate_extracted_data default_validator
            (fst (?c s ''biography'' t e)))) \<longrightarrow>
         length outs = nat 2 \<and> (0 \<le> (2::int) \<longrightarrow> int (length outs) = 2) \<and> \<not> is_valid val')"
    using validate_and_correct_attempts
      [where v = default_validator and x = ?x and m = 2 and correct = ?c and st = 0
         and b = "''biography''"]
    unfolding r prod.case .
  from t john_invalid nv have l: "length outs = 2" and iv: "\<not> is_valid val'"
    and ch: "oracle_chain default_validator ?c ''biography'' 0 ?x outs st'"
    and d: "d' = last (?x # outs)" and va: "val' = validate_extracted_data default_validator d'"
    by auto
  from l obtain y1 y2 where o: "outs = [y1, y2]"
    by (cases outs; cases "tl outs") auto
  from ch have "y1 = extracted_with_years (Some 1950) (Some 1939) \<and>
      y2 = extracted_with_years (Some 1950) (Some 1938) \<and> st' = 2"
    unfolding o by auto
  with o d va iv john_invalid show ?thesis unfolding r by simp
qed

text \<open>
  The early stop: the second answer of this oracle validates, and with three attempts
  configured the loop returns it after two.
\<close>

lemma validate_and_correct_stops_early:
  "validate_and_correct default_validator 3
      (\<lambda>st b d errs. (extracted_with_years (Some 1950) (if st = 0 then Some 1945 else Some 2010),
                       Suc st)) 0
      ''biography'' (extracted_with_years (Some 1950) (Some 1940)) =
     (extracted_with_years (Some 1950) (Some 2010),
      validate_extracted_data default_validator (extracted_with_years (Some 1950) (Some 2010)),
      2,
      [extracted_with_years (Some 1950) (Some 1945), extracted_with_years (Some 1950) (Some 2010)])"
proof -
  have i: "\<not> is_valid (validate_extracted_data default_validator
      (extracted_with_years (Some 1950) (Some 1945)))"
    by (simp add: validate_extracted_data_def extracted_with_years_def default_validator_def
        get_year_def validate_lifespan_def year_truthy_def Let_def)
  have n: "nat 3 = Suc (Suc (Suc 0))" by simp
  show ?thesis
    unfolding validate_and_correct_def n
    by (simp add: john_invalid john_valid i Let_def)
qed

text \<open>
  C9 at a subject whose birth year is not known: the subject died in 1950 and a child is
  born in 1990, yet the validation reports nothing, because \<open>_validate_parent_child\<close>
  returns before the test of the death year when either birth year is None.
\<close>

theorem validate_child_after_death_unknown_birth_year:
  "validate_extracted_data default_validator
     ((extracted_with_years None (Some 1950))
        \<lparr>x_children := [reference_with_defaults ''Tom Smith'' CHILD (Some 1990)]\<rparr>)
   = \<lparr>is_valid = True, errors = [], warnings = []\<rparr>"
  by (simp add: validate_extracted_data_def extracted_with_years_def default_validator_def
      reference_with_defaults_def get_year_def validate_lifespan_def year_truthy_def
      validate_parent_child_def Let_def)

text \<open>With the birth year known the same child is reported.\<close>

lemma validate_child_after_death_known_birth_year:
  "errors (validate_extracted_data default_validator
     ((extracted_with_years (Some 1900) (Some 1950))
        \<lparr>x_children := [reference_with_defaults ''Tom Smith'' CHILD (Some 1990)]\<rparr>))
   = [''Child born in 1990, but parent John Smith died in 1950'']"
  by (simp add: validate_extracted_data_def extracted_with_years_def default_validator_def
      reference_with_defaults_def get_year_def validate_lifespan_def year_truthy_def
      validate_parent_child_def str_int_def str_nat.simps Let_def)

section \<open>Properties of the reference resolver\<close>

lemma valid_reference_iff:
  "is_valid (validate_person_reference y r) \<longleftrightarrow>
     r_name r \<noteq> [] \<and> strip (r_name r) \<noteq> [] \<and>
     \<not> (year_truthy (approximate_birth_year r) \<and> the (approximate_birth_year r) > y)"
  by (auto simp: validate_person_reference_def Let_def)

lemma resolve_invalid_reference:
  assumes "\<not> is_valid (validate_person_reference (today_year e) r)"
  shows "resolve_person_reference e s r g np =
           Inr (None, log_line (Warn_invalid_person_reference
                  (errors (validate_person_reference (today_year e) r))) s)"
  using assms by (simp add: resolve_person_reference_def Let_def)

lemma invalid_reference_has_errors:
  "\<not> is_valid (validate_person_reference y r) \<Longrightarrow> errors (validate_person_reference y r) \<noteq> []"
  by (simp add: validate_person_reference_def Let_def)

text \<open>The record the creation block stores for a reference.\<close>

lemma create_pending_record_result:
  assumes "approximate_birth_year r = None \<or> (\<exists>y. approximate_birth_year r = Some y \<and> 0 \<le> y \<and> y \<le> 9999)"
  shows "create_pending_record e s r g =
     Inr (Some (new_uuid e),
          s\<lparr>persons := persons s @
             [\<lparr>p_id = new_uuid e, p_status = PENDING,
               p_given_name = given_name (parse_name (r_name r)),
               p_surname = surname (parse_name (r_name r)),
               p_maiden_name = maiden_name (parse_name (r_name r)), p_nickname = None,
               p_gender = r_gender r,
               p_birth_date =
                 (case approximate_birth_year r of
                    None \<Rightarrow> None
                  | Some y \<Rightarrow> if y = 0 then None else Some \<lparr>d_year = y, d_month = 1, d_day = 1\<rparr>),
               p_birth_place = None, p_death_date = None, p_death_place = None,
               p_biography = None, p_generation = g\<rparr>]\<rparr>)"
proof (cases "approximate_birth_year r")
  case None
  then show ?thesis
    by (simp add: create_pending_record_def create_person_def year_truthy_def Let_def)
next
  case (Some y)
  with assms have "0 \<le> y" "y \<le> 9999" by auto
  with Some show ?thesis
    by (cases "y = 0")
      (simp_all add: create_pending_record_def create_person_def year_truthy_def
        first_of_january_def Let_def)
qed

lemma create_pending_record_raises:
  "approximate_birth_year r = Some y \<Longrightarrow> y < 0 \<Longrightarrow> create_pending_record e s r g = Inl ValueError"
  by (simp add: create_pending_record_def year_truthy_def first_of_january_def Let_def)

lemma resolve_no_match:
  assumes "is_valid (validate_person_reference (today_year e) r)"
    and "good_candidates s r = [] \<or>
         \<not> (is_duplicate (check_duplicate e s r g np (map fst (take 5 (good_candidates s r)))) \<and>
            str_truthy (matched_person_id
              (check_duplicate e s r g np (map fst (take 5 (good_candidates s r))))))"
  shows "resolve_person_reference e s r g np = create_pending_record e s r g"
  using assms by (auto simp: resolve_person_reference_def Let_def)

lemma resolve_match:
  assumes "is_valid (validate_person_reference (today_year e) r)"
    and "good_candidates s r \<noteq> []"
    and "is_duplicate (check_duplicate e s r g np (map fst (take 5 (good_candidates s r))))"
    and "matched_person_id (check_duplicate e s r g np (map fst (take 5 (good_candidates s r))))
           = Some t"
    and "t \<noteq> []"
  shows "resolve_person_reference e s r g np =
           (case parse_uuid e t of
              Some u \<Rightarrow> Inr (Some u, s)
            | None \<Rightarrow> create_pending_record e (log_line (Warn_invalid_uuid t (r_name r)) s) r g)"
  using assms by (simp add: resolve_person_reference_def str_truthy_def Let_def split: option.splits)

lemma get_by_id_appended:
  "pid \<notin> p_id ` set ps \<Longrightarrow> p_id p = pid \<Longrightarrow> find (\<lambda>x. p_id x = pid) (ps @ [p]) = Some p"
  by (induction ps) auto

lemma find_appended_other:
  "p_id p \<noteq> pid \<Longrightarrow> find (\<lambda>x. p_id x = pid) (ps @ [p]) = find (\<lambda>x. p_id x = pid) ps"
  by (induction ps) auto

text \<open>The parsed names of the worked examples.\<close>

lemma parse_name_William_Smith:
  "parse_name ''William Smith'' =
     \<lparr>given_name = ''William'', middle_names = [], surname = ''Smith'',
      maiden_name = None, suffixes = None\<rparr>"
  by (simp add: name_eval)

lemma no_candidates_in_empty_store: "good_candidates empty_store r = []"
  by (simp add: good_candidates_def find_candidates_def search_similar_def
      search_by_given_name_and_birth_year_def empty_store_def Let_def)

lemma John_Smith_1400_valid:
  "validate_person_reference 2024 (reference_with_defaults ''John Smith'' PARENT (Some 1400)) =
     \<lparr>is_valid = True, errors = [], warnings = [''Very old birth year: 1400'']\<rparr>"
  by (simp add: validate_person_reference_def reference_with_defaults_def year_truthy_def
      strip_def py_isspace_def str_int_def str_nat.simps Let_def)

text \<open>
  C3, as stated, fails for a birth year before the floor: the validator answers a year
  below 1500 with a warning only, the reference stays valid, and the resolver goes on to
  create the person.
\<close>

theorem old_birth_year_is_not_dropped_counterexample:
  "warnings (validate_person_reference 2024
      (reference_with_defaults ''John Smith'' PARENT (Some 1400))) = [''Very old birth year: 1400''] \<and>
   resolve_person_reference (quiet_env 70) empty_store
      (reference_with_defaults ''John Smith'' PARENT (Some 1400)) 0 None =
     Inr (Some 70,
          empty_store\<lparr>persons :=
            [(person_with_defaults 70 ''John'' ''Smith'')
               \<lparr>p_birth_date := Some \<lparr>d_year = 1400, d_month = 1, d_day = 1\<rparr>\<rparr>]\<rparr>)"
proof -
  let ?r = "reference_with_defaults ''John Smith'' PARENT (Some 1400)"
  have v: "is_valid (validate_person_reference (today_year (quiet_env 70)) ?r)"
    by (simp add: quiet_env_def John_Smith_1400_valid)
  have "resolve_person_reference (quiet_env 70) empty_store ?r 0 None =
      create_pending_record (quiet_env 70) empty_store ?r 0"
    by (rule resolve_no_match [OF v]) (simp add: no_candidates_in_empty_store)
  also have "\<dots> = Inr (Some 70,
          empty_store\<lparr>persons :=
            [(person_with_defaults 70 ''John'' ''Smith'')
               \<lparr>p_birth_date := Some \<lparr>d_year = 1400, d_month = 1, d_day = 1\<rparr>\<rparr>]\<rparr>)"
    by (simp add: create_pending_record_def reference_with_defaults_def quiet_env_def
        parse_name_John_Smith year_truthy_def first_of_january_def create_person_def
        empty_store_def person_with_defaults_def Let_def)
  finally show ?thesis by (simp add: John_Smith_1400_valid)
qed

text \<open>
  C3, amended.  A reference whose name is empty or only white space, or whose approximate
  birth year is later than the current year, is dropped: the resolver logs the warning with
  the validation errors and returns None; it raises nothing and the table of persons is as
  before.  A birth year that is not in the future, however old, leaves a reference with a
  proper name valid (below 1500 it only adds a warning).
\<close>

theorem blank_or_future_reference_is_dropped:
  "0 \<le> today_year e \<longrightarrow>
     ((r_name r = [] \<or> strip (r_name r) = [] \<or>
       (\<exists>y. approximate_birth_year r = Some y \<and> today_year e < y)) \<longrightarrow>
        errors (validate_person_reference (today_year e) r) \<noteq> [] \<and>
        resolve_person_reference e s r g np =
          Inr (None, log_line (Warn_invalid_person_reference
                 (errors (validate_person_reference (today_year e) r))) s) \<and>
        persons (log_line (Warn_invalid_person_reference
                 (errors (validate_person_reference (today_year e) r))) s) = persons s) \<and>
     (r_name r \<noteq> [] \<and> strip (r_name r) \<noteq> [] \<and>
      (\<exists>y. approximate_birth_year r = Some y \<and> y \<le> today_year e) \<longrightarrow>
        is_valid (validate_person_reference (today_year e) r))"
proof (intro impI conjI)
  assume t: "0 \<le> today_year e"
  assume "r_name r = [] \<or> strip (r_name r) = [] \<or>
       (\<exists>y. approximate_birth_year r = Some y \<and> today_year e < y)"
  with t have inv: "\<not> is_valid (validate_person_reference (today_year e) r)"
    by (auto simp: valid_reference_iff year_truthy_def)
  then show "errors (validate_person_reference (today_year e) r) \<noteq> []"
    by (rule invalid_reference_has_errors)
  from inv show "resolve_person_reference e s r g np =
          Inr (None, log_line (Warn_invalid_person_reference
                 (errors (validate_person_reference (today_year e) r))) s)"
    by (rule resolve_invalid_reference)
  show "persons (log_line (Warn_invalid_person_reference
                 (errors (validate_person_reference (today_year e) r))) s) = persons s"
    by (simp add: log_line_def)
next
  assume "0 \<le> today_year e"
  assume "r_name r \<noteq> [] \<and> strip (r_name r) \<noteq> [] \<and>
      (\<exists>y. approximate_birth_year r = Some y \<and> y \<le> today_year e)"
  then show "is_valid (validate_person_reference (today_year e) r)"
    by (auto simp: valid_reference_iff year_truthy_def)
qed

theorem blank_or_future_reference_is_dropped_witness:
  "resolve_person_reference (quiet_env 70) empty_store
      (reference_with_defaults ''   '' PARENT (Some 1920)) 0 None =
     Inr (None, log_line (Warn_invalid_person_reference [''Person reference has empty name''])
                  empty_store) \<and>
   resolve_person_reference (quiet_env 70) empty_store
      (reference_with_defaults ''John Smith'' PARENT (Some 2999)) 0 None =
     Inr (None, log_line (Warn_invalid_person_reference [''Birth year 2999 is in the future''])
                  empty_store) \<and>
   is_valid (validate_person_reference 2024
      (reference_with_defaults ''John Smith'' PARENT (Some 1400)))"
proof -
  let ?blank = "reference_with_defaults ''   '' PARENT (Some 1920)"
  let ?future = "reference_with_defaults ''John Smith'' PARENT (Some 2999)"
  let ?old = "reference_with_defaults ''John Smith'' PARENT (Some 1400)"
  have t: "today_year (quiet_env 70) = 2024" by (simp add: quiet_env_def)
  have b: "strip (r_name ?blank) = []"
    by (simp add: reference_with_defaults_def strip_def py_isspace_def)
  have eb: "errors (validate_person_reference 2024 ?blank) = [''Person reference has empty name'']"
    by (simp add: validate_person_reference_def reference_with_defaults_def year_truthy_def
        strip_def py_isspace_def Let_def)
  have f: "approximate_birth_year ?future = Some 2999"
    by (simp add: reference_with_defaults_def)
  have ef: "errors (validate_person_reference 2024 ?future) = [''Birth year 2999 is in the future'']"
    by (simp add: validate_person_reference_def reference_with_defaults_def year_truthy_def
        strip_def py_isspace_def str_int_def str_nat.simps Let_def)
  have o: "r_name ?old \<noteq> [] \<and> strip (r_name ?old) \<noteq> [] \<and> approximate_birth_year ?old = Some 1400"
    by (simp add: reference_with_defaults_def strip_def py_isspace_def)
  from blank_or_future_reference_is_dropped [of "quiet_env 70" ?blank empty_store 0 None] b
  have 1: "resolve_person_reference (quiet_env 70) empty_store ?blank 0 None =
     Inr (None, log_line (Warn_invalid_person_reference [''Person reference has empty name''])
                  empty_store)"
    unfolding t eb by simp
  from blank_or_future_reference_is_dropped [of "quiet_env 70" ?future empty_store 0 None] f
  have 2: "resolve_person_reference (quiet_env 70) empty_store ?future 0 None =
     Inr (None, log_line (Warn_invalid_person_reference [''Birth year 2999 is in the future''])
                  empty_store)"
    unfolding t ef by simp
  from blank_or_future_reference_is_dropped [of "quiet_env 70" ?old empty_store 0 None] o
  have 3: "is_valid (validate_person_reference 2024 ?old)"
    unfolding t by simp
  from 1 2 3 show ?thesis by blast
qed

text \<open>
  C7, as stated, fails for the birth year 0: the source tests the year for truth before it
  builds the date, so the person is created without a birth date and does not carry the
  approximate birth year of the reference.
\<close>

theorem birth_year_zero_is_not_stored_counterexample:
  "resolve_person_reference (quiet_env 70) empty_store
      (reference_with_defaults ''William Smith'' PARENT (Some 0)) 2 None =
     Inr (Some 70,
          empty_store\<lparr>persons :=
            [(person_with_defaults 70 ''William'' ''Smith'')\<lparr>p_generation := 2\<rparr>]\<rparr>) \<and>
   map_option d_year
     (p_birth_date ((person_with_defaults 70 ''William'' ''Smith'')\<lparr>p_generation := 2\<rparr>))
     \<noteq> approximate_birth_year (reference_with_defaults ''William Smith'' PARENT (Some 0))"
proof -
  let ?r = "reference_with_defaults ''William Smith'' PARENT (Some 0)"
  have v: "is_valid (validate_person_reference (today_year (quiet_env 70)) ?r)"
    by (simp add: valid_reference_iff reference_with_defaults_def year_truthy_def strip_def
        py_isspace_def)
  have "resolve_person_reference (quiet_env 70) empty_store ?r 2 None =
      create_pending_record (quiet_env 70) empty_store ?r 2"
    by (rule resolve_no_match [OF v]) (simp add: no_candidates_in_empty_store)
  also have "\<dots> = Inr (Some 70,
          empty_store\<lparr>persons :=
            [(person_with_defaults 70 ''William'' ''Smith'')\<lparr>p_generation := 2\<rparr>]\<rparr>)"
    by (simp add: create_pending_record_def reference_with_defaults_def quiet_env_def
        parse_name_William_Smith year_truthy_def create_person_def
        empty_store_def person_with_defaults_def Let_def)
  finally show ?thesis
    by (simp add: person_with_defaults_def reference_with_defaults_def)
qed

text \<open>A store that holds the subject Robert Smith of generation 3 and nobody else.\<close>

lemma no_candidate_for_William:
  "good_candidates
     (empty_store\<lparr>persons :=
        [(person_with_defaults 50 ''Robert'' ''Smith'')\<lparr>p_status := COMPLETE, p_generation := 3\<rparr>]\<rparr>)
     (reference_with_defaults ''William Smith'' PARENT (Some 1920)) = []"
  by (simp add: good_candidates_def find_candidates_def search_similar_def
      search_by_given_name_and_birth_year_def empty_store_def person_with_defaults_def
      reference_with_defaults_def parse_name_William_Smith ilike_contains_def
      sql_lower_char_def Let_def)

lemma William_Smith_1920_valid:
  "is_valid (validate_person_reference 2024
     (reference_with_defaults ''William Smith'' PARENT (Some 1920)))"
  by (simp add: valid_reference_iff reference_with_defaults_def year_truthy_def strip_def
      py_isspace_def)

lemma William_Smith_scenario:
  "process_parent_reference (quiet_env 70)
     (empty_store\<lparr>persons :=
        [(person_with_defaults 50 ''Robert'' ''Smith'')\<lparr>p_status := COMPLETE, p_generation := 3\<rparr>]\<rparr>)
     ((person_with_defaults 50 ''Robert'' ''Smith'')\<lparr>p_status := COMPLETE, p_generation := 3\<rparr>)
     (reference_with_defaults ''William Smith'' PARENT (Some 1920)) =
   Inr \<lparr>persons =
          [(person_with_defaults 50 ''Robert'' ''Smith'')\<lparr>p_status := COMPLETE, p_generation := 3\<rparr>,
           (person_with_defaults 70 ''William'' ''Smith'')
             \<lparr>p_status := QUEUED,
              p_birth_date := Some \<lparr>d_year = 1920, d_month = 1, d_day = 1\<rparr>,
              p_generation := 2\<rparr>],
        child_links = [(70, 50)], spouse_links = [],
        creation_queue = [\<lparr>person_id = 70, priority = 1, added_at = 0\<rparr>], log = []\<rparr>"
proof -
  let ?subject = "(person_with_defaults 50 ''Robert'' ''Smith'')\<lparr>p_status := COMPLETE, p_generation := 3\<rparr>"
  let ?s = "empty_store\<lparr>persons := [?subject]\<rparr>"
  let ?r = "reference_with_defaults ''William Smith'' PARENT (Some 1920)"
  have v: "is_valid (validate_person_reference (today_year (quiet_env 70)) ?r)"
    by (simp add: quiet_env_def William_Smith_1920_valid)
  have "resolve_person_reference (quiet_env 70) ?s ?r 2 (Some ?subject) =
      create_pending_record (quiet_env 70) ?s ?r 2"
    by (rule resolve_no_match [OF v]) (simp add: no_candidate_for_William)
  also have "\<dots> = Inr (Some 70,
      empty_store\<lparr>persons := [?subject,
         (person_with_defaults 70 ''William'' ''Smith'')
           \<lparr>p_birth_date := Some \<lparr>d_year = 1920, d_month = 1, d_day = 1\<rparr>, p_generation := 2\<rparr>]\<rparr>)"
    by (simp add: create_pending_record_def reference_with_defaults_def quiet_env_def
        parse_name_William_Smith year_truthy_def first_of_january_def create_person_def
        empty_store_def person_with_defaults_def Let_def)
  finally have res: "resolve_person_reference (quiet_env 70) ?s ?r 2 (Some ?subject) =
     Inr (Some 70,
      empty_store\<lparr>persons := [?subject,
         (person_with_defaults 70 ''William'' ''Smith'')
           \<lparr>p_birth_date := Some \<lparr>d_year = 1920, d_month = 1, d_day = 1\<rparr>, p_generation := 2\<rparr>]\<rparr>)" .
  have g: "p_generation ?subject - 1 = 2" "p_id ?subject = 50"
    by (simp_all add: person_with_defaults_def)
  show ?thesis
    unfolding process_parent_reference_def g res
    by (simp add: link_parent_def link_exists_def get_parent_count_def create_link_def
        get_by_id_def enqueue_def update_person_def empty_store_def person_with_defaults_def
        quiet_env_def Let_def)
qed

text \<open>
  C7, amended.  For a valid reference whose birth year is absent or not negative, when no
  candidate scores 0.5 or more (the spouse-surname rise included) or the oracle reports no
  duplicate, the resolver adds exactly one row to the persons and returns its id: status
  Pending, the parsed given name, surname and maiden name, the gender of the reference, the
  first of January of its birth year as birth date (none when the year is absent or 0), and
  the requested generation.  For the parent "William Smith" born 1920 of a subject of
  generation 3, with no candidate in the store, that row has given name William, surname
  Smith and generation 2; the orchestrator links it to the subject, queues it at priority 1
  and marks it Queued.
\<close>

theorem resolve_creates_pending_person:
  "(is_valid (validate_person_reference (today_year e) r) \<and> today_year e \<le> 9999 \<and>
    (approximate_birth_year r = None \<or> (\<exists>y. approximate_birth_year r = Some y \<and> 0 \<le> y)) \<and>
    (good_candidates s r = [] \<or>
     \<not> (is_duplicate (check_duplicate e s r g np (map fst (take 5 (good_candidates s r)))) \<and>
        str_truthy (matched_person_id
          (check_duplicate e s r g np (map fst (take 5 (good_candidates s r))))))) \<and>
    new_uuid e \<notin> p_id ` set (persons s)
    \<longrightarrow>
      (\<exists>row. resolve_person_reference e s r g np =
               Inr (Some (new_uuid e), s\<lparr>persons := persons s @ [row]\<rparr>) \<and>
             get_by_id (s\<lparr>persons := persons s @ [row]\<rparr>) (new_uuid e) = Some row \<and>
             (\<forall>pid. pid \<noteq> new_uuid e \<longrightarrow>
                get_by_id (s\<lparr>persons := persons s @ [row]\<rparr>) pid = get_by_id s pid) \<and>
             row =
               \<lparr>p_id = new_uuid e, p_status = PENDING,
                p_given_name = given_name (parse_name (r_name r)),
                p_surname = surname (parse_name (r_name r)),
                p_maiden_name = maiden_name (parse_name (r_name r)), p_nickname = None,
                p_gender = r_gender r,
                p_birth_date =
                  (case approximate_birth_year r of
                     None \<Rightarrow> None
                   | Some y \<Rightarrow> if y = 0 then None else Some \<lparr>d_year = y, d_month = 1, d_day = 1\<rparr>),
                p_birth_place = None, p_death_date = None, p_death_place = None,
                p_biography = None, p_generation = g\<rparr>)) \<and>
   process_parent_reference (quiet_env 70)
     (empty_store\<lparr>persons :=
        [(person_with_defaults 50 ''Robert'' ''Smith'')\<lparr>p_status := COMPLETE, p_generation := 3\<rparr>]\<rparr>)
     ((person_with_defaults 50 ''Robert'' ''Smith'')\<lparr>p_status := COMPLETE, p_generation := 3\<rparr>)
     (reference_with_defaults ''William Smith'' PARENT (Some 1920)) =
   Inr \<lparr>persons =
          [(person_with_defaults 50 ''Robert'' ''Smith'')\<lparr>p_status := COMPLETE, p_generation := 3\<rparr>,
           (person_with_defaults 70 ''William'' ''Smith'')
             \<lparr>p_status := QUEUED,
              p_birth_date := Some \<lparr>d_year = 1920, d_month = 1, d_day = 1\<rparr>,
              p_generation := 2\<rparr>],
        child_links = [(70, 50)], spouse_links = [],
        creation_queue = [\<lparr>person_id = 70, priority = 1, added_at = 0\<rparr>], log = []\<rparr>"
proof (rule conjI [OF _ William_Smith_scenario], rule impI)
  let ?D = "check_duplicate e s r g np (map fst (take 5 (good_candidates s r)))"
  let ?row = "\<lparr>p_id = new_uuid e, p_status = PENDING,
                p_given_name = given_name (parse_name (r_name r)),
                p_surname = surname (parse_name (r_name r)),
                p_maiden_name = maiden_name (parse_name (r_name r)), p_nickname = None,
                p_gender = r_gender r,
                p_birth_date =
                  (case approximate_birth_year r of
                     None \<Rightarrow> None
                   | Some y \<Rightarrow> if y = 0 then None else Some \<lparr>d_year = y, d_month = 1, d_day = 1\<rparr>),
                p_birth_place = None, p_death_date = None, p_death_place = None,
                p_biography = None, p_generation = g\<rparr>"
  assume h: "is_valid (validate_person_reference (today_year e) r) \<and> today_year e \<le> 9999 \<and>
    (approximate_birth_year r = None \<or> (\<exists>y. approximate_birth_year r = Some y \<and> 0 \<le> y)) \<and>
    (good_candidates s r = [] \<or> \<not> (is_duplicate ?D \<and> str_truthy (matched_person_id ?D))) \<and>
    new_uuid e \<notin> p_id ` set (persons s)"
  then have v: "is_valid (validate_person_reference (today_year e) r)"
    and nm: "good_candidates s r = [] \<or> \<not> (is_duplicate ?D \<and> str_truthy (matched_person_id ?D))"
    and fresh: "new_uuid e \<notin> p_id ` set (persons s)"
    by blast+
  have yr: "approximate_birth_year r = None \<or>
      (\<exists>y. approximate_birth_year r = Some y \<and> 0 \<le> y \<and> y \<le> 9999)"
  proof (cases "approximate_birth_year r")
    case None
    then show ?thesis by simp
  next
    case (Some y)
    with h have "0 \<le> y" by auto
    moreover have "y \<le> 9999"
    proof (cases "y = 0")
      case True
      then show ?thesis by simp
    next
      case False
      with v Some have "y \<le> today_year e"
        by (simp add: valid_reference_iff year_truthy_def)
      with h show ?thesis by simp
    qed
    ultimately show ?thesis using Some by simp
  qed
  have res: "resolve_person_reference e s r g np =
      Inr (Some (new_uuid e), s\<lparr>persons := persons s @ [?row]\<rparr>)"
    unfolding resolve_no_match [OF v nm] by (rule create_pending_record_result [OF yr])
  have g1: "get_by_id (s\<lparr>persons := persons s @ [?row]\<rparr>) (new_uuid e) = Some ?row"
    using fresh by (simp add: get_by_id_def get_by_id_appended)
  have g2: "\<forall>pid. pid \<noteq> new_uuid e \<longrightarrow>
      get_by_id (s\<lparr>persons := persons s @ [?row]\<rparr>) pid = get_by_id s pid"
    by (simp add: get_by_id_def find_appended_other)
  from res g1 g2 show "\<exists>row. resolve_person_reference e s r g np =
               Inr (Some (new_uuid e), s\<lparr>persons := persons s @ [row]\<rparr>) \<and>
             get_by_id (s\<lparr>persons := persons s @ [row]\<rparr>) (new_uuid e) = Some row \<and>
             (\<forall>pid. pid \<noteq> new_uuid e \<longrightarrow>
                get_by_id (s\<lparr>persons := persons s @ [row]\<rparr>) pid = get_by_id s pid) \<and>
             row = ?row"
    by blast
qed

theorem resolve_creates_pending_person_witness:
  "is_valid (validate_person_reference (today_year (quiet_env 70))
     (reference_with_defaults ''William Smith'' PARENT (Some 1920))) \<and>
   good_candidates empty_store (reference_with_defaults ''William Smith'' PARENT (Some 1920)) = [] \<and>
   resolve_person_reference (quiet_env 70) empty_store
      (reference_with_defaults ''William Smith'' PARENT (Some 1920)) 2 None =
     Inr (Some 70,
          empty_store\<lparr>persons :=
            [(person_with_defaults 70 ''William'' ''Smith'')
               \<lparr>p_birth_date := Some \<lparr>d_year = 1920, d_month = 1, d_day = 1\<rparr>,
                p_generation := 2\<rparr>]\<rparr>)"
proof -
  let ?r = "reference_with_defaults ''William Smith'' PARENT (Some 1920)"
  have v: "is_valid (validate_person_reference (today_year (quiet_env 70)) ?r)"
    by (simp add: quiet_env_def William_Smith_1920_valid)
  have h: "today_year (quiet_env 70) \<le> 9999 \<and>
      (approximate_birth_year ?r = None \<or> (\<exists>y. approximate_birth_year ?r = Some y \<and> 0 \<le> y)) \<and>
      new_uuid (quiet_env 70) \<notin> p_id ` set (persons empty_store)"
    by (simp add: quiet_env_def reference_with_defaults_def empty_store_def)
  from resolve_creates_pending_person
    [where e = "quiet_env 70" and r = ?r and s = empty_store and g = 2 and np = None]
    v h no_candidates_in_empty_store [of ?r]
  obtain row where
    "resolve_person_reference (quiet_env 70) empty_store ?r 2 None =
       Inr (Some (new_uuid (quiet_env 70)), empty_store\<lparr>persons := persons empty_store @ [row]\<rparr>)"
    and "row =
      \<lparr>p_id = new_uuid (quiet_env 70), p_status = PENDING,
       p_given_name = given_name (parse_name (r_name ?r)),
       p_surname = surname (parse_name (r_name ?r)),
       p_maiden_name = maiden_name (parse_name (r_name ?r)), p_nickname = None,
       p_gender = r_gender ?r,
       p_birth_date =
         (case approximate_birth_year ?r of
            None \<Rightarrow> None
          | Some y \<Rightarrow> if y = 0 then None else Some \<lparr>d_year = y, d_month = 1, d_day = 1\<rparr>),
       p_birth_place = None, p_death_date = None, p_death_place = None,
       p_biography = None, p_generation = 2\<rparr>"
    by blast
  then have "resolve_person_reference (quiet_env 70) empty_store ?r 2 None =
     Inr (Some 70,
          empty_store\<lparr>persons :=
            [(person_with_defaults 70 ''William'' ''Smith'')
               \<lparr>p_birth_date := Some \<lparr>d_year = 1920, d_month = 1, d_day = 1\<rparr>,
                p_generation := 2\<rparr>]\<rparr>)"
    by (simp add: quiet_env_def reference_with_defaults_def parse_name_William_Smith
        empty_store_def person_with_defaults_def)
  with v no_candidates_in_empty_store [of ?r] show ?thesis by simp
qed

section \<open>Properties of the answer of the oracle\<close>

lemma good_candidates_log: "good_candidates (log_line l s) r = good_candidates s r"
  by (simp add: good_candidates_def find_candidates_def candidate_score_def search_similar_def
      search_by_given_name_and_birth_year_def get_by_id_def log_line_def Let_def)

lemma create_pending_record_log:
  "create_pending_record e (log_line l s) r g =
     map_sum id (\<lambda>(i, s'). (i, log_line l s')) (create_pending_record e s r g)"
  by (simp add: create_pending_record_def create_person_def log_line_def Let_def
      split: sum.splits)

lemma John_Smith_1950_valid:
  "is_valid (validate_person_reference 2024 (reference_with_defaults ''John Smith'' PARENT (Some 1950)))"
  by (simp add: valid_reference_iff reference_with_defaults_def year_truthy_def strip_def
      py_isspace_def)

lemma John_Smith_is_candidate:
  "good_candidates john_smith_1950 (reference_with_defaults ''John Smith'' PARENT (Some 1950)) =
     [((person_with_defaults 10 ''John'' ''Smith'')
         \<lparr>p_status := COMPLETE,
          p_birth_date := Some \<lparr>d_year = 1950, d_month = 1, d_day = 1\<rparr>\<rparr>, 1)]"
proof -
  let ?p = "(person_with_defaults 10 ''John'' ''Smith'')
         \<lparr>p_status := COMPLETE,
          p_birth_date := Some \<lparr>d_year = 1950, d_month = 1, d_day = 1\<rparr>\<rparr>"
  let ?r = "reference_with_defaults ''John Smith'' PARENT (Some 1950)"
  have like: "ilike_contains ''John'' ''John''"
    by (simp add: ilike_contains_def sql_lower_char_def)
  have y3: "\<And>m d. birth_year_between (Some \<lparr>d_year = 1950, d_month = m, d_day = d\<rparr>) 1950 3"
    by (simp add: birth_year_between_def strftime_Y_def str_int_def str_nat.simps Let_def
        less_eq_char_def)
  have y5: "\<And>m d. birth_year_between (Some \<lparr>d_year = 1950, d_month = m, d_day = d\<rparr>) 1950 5"
    by (simp add: birth_year_between_def strftime_Y_def str_int_def str_nat.simps Let_def
        less_eq_char_def)
  have f: "find_candidates john_smith_1950 ?r = [?p]"
    by (simp add: find_candidates_def search_similar_def search_by_given_name_and_birth_year_def
        john_smith_1950_def empty_store_def person_with_defaults_def reference_with_defaults_def
        parse_name_John_Smith like y3 y5 Let_def)
  have c: "candidate_score john_smith_1950 ?r ?p = 1"
    unfolding candidate_score_def float_literals Let_def
    by (simp add: person_with_defaults_def reference_with_defaults_def
        score_John_Smith_John_Smith)
  show ?thesis
    unfolding good_candidates_def f list.map c float_literals by simp
qed

text \<open>
  Whenever the oracle is asked (the reference is valid and a candidate scores 0.5 or more)
  and answers "duplicate" with an identifier \<open>t\<close>: when \<open>t\<close> parses as a UUID, that id is
  the result and the store is unchanged; when it does not, the \<open>ValueError\<close> of the parse is
  caught, a warning is logged, and the resolution goes on exactly as when the oracle finds
  no duplicate, in the block that creates the Pending record.  That block returns the fresh
  id of one new Pending person when the birth year of the reference is absent or not
  negative.
\<close>

lemma malformed_match_id_falls_through:
  assumes "is_valid (validate_person_reference (today_year e) r)"
    and "good_candidates s r \<noteq> []"
    and "is_duplicate (check_duplicate e s r g np (map fst (take 5 (good_candidates s r))))"
    and "matched_person_id (check_duplicate e s r g np (map fst (take 5 (good_candidates s r))))
           = Some t"
    and "t \<noteq> []"
  shows "(\<forall>u. parse_uuid e t = Some u \<longrightarrow> resolve_person_reference e s r g np = Inr (Some u, s)) \<and>
         (parse_uuid e t = None \<longrightarrow>
            resolve_person_reference e s r g np =
              resolve_person_reference
                (e\<lparr>check_duplicate :=
                     (\<lambda>s r g np cs. \<lparr>is_duplicate = False, matched_person_id = None\<rparr>)\<rparr>)
                (log_line (Warn_invalid_uuid t (r_name r)) s) r g np \<and>
            resolve_person_reference e s r g np =
              create_pending_record e (log_line (Warn_invalid_uuid t (r_name r)) s) r g \<and>
            (today_year e \<le> 9999 \<and>
             (approximate_birth_year r = None \<or> (\<exists>y. approximate_birth_year r = Some y \<and> 0 \<le> y))
             \<longrightarrow> (\<exists>row. resolve_person_reference e s r g np =
                           Inr (Some (new_uuid e),
                                (log_line (Warn_invalid_uuid t (r_name r)) s)
                                  \<lparr>persons := persons s @ [row]\<rparr>) \<and>
                         p_id row = new_uuid e \<and> p_status row = PENDING \<and>
                         p_given_name row = given_name (parse_name (r_name r)) \<and>
                         p_surname row = surname (parse_name (r_name r)) \<and>
                         p_generation row = g)))"
proof (intro conjI allI impI)
  fix u
  assume "parse_uuid e t = Some u"
  with resolve_match [OF assms] show "resolve_person_reference e s r g np = Inr (Some u, s)"
    by simp
next
  let ?w = "Warn_invalid_uuid t (r_name r)"
  let ?e = "e\<lparr>check_duplicate :=
                (\<lambda>s r g np cs. \<lparr>is_duplicate = False, matched_person_id = None\<rparr>)\<rparr>"
  assume n: "parse_uuid e t = None"
  with resolve_match [OF assms]
  show c: "resolve_person_reference e s r g np = create_pending_record e (log_line ?w s) r g"
    by simp
  have v: "is_valid (validate_person_reference (today_year ?e) r)"
    using assms(1) by simp
  have "resolve_person_reference ?e (log_line ?w s) r g np =
      create_pending_record ?e (log_line ?w s) r g"
    by (rule resolve_no_match [OF v]) simp
  also have "\<dots> = create_pending_record e (log_line ?w s) r g"
    by (simp add: create_pending_record_def Let_def split: sum.splits)
  finally show "resolve_person_reference e s r g np =
      resolve_person_reference ?e (log_line ?w s) r g np"
    using c by simp
  assume h: "today_year e \<le> 9999 \<and>
      (approximate_birth_year r = None \<or> (\<exists>y. approximate_birth_year r = Some y \<and> 0 \<le> y))"
  have yr: "approximate_birth_year r = None \<or>
      (\<exists>y. approximate_birth_year r = Some y \<and> 0 \<le> y \<and> y \<le> 9999)"
  proof (cases "approximate_birth_year r")
    case None
    then show ?thesis by simp
  next
    case (Some y)
    with h have "0 \<le> y" by auto
    moreover have "y \<le> 9999"
    proof (cases "y = 0")
      case True
      then show ?thesis by simp
    next
      case False
      with assms(1) Some have "y \<le> today_year e"
        by (simp add: valid_reference_iff year_truthy_def)
      with h show ?thesis by simp
    qed
    ultimately show ?thesis using Some by simp
  qed
  let ?row = "\<lparr>p_id = new_uuid e, p_status = PENDING,
               p_given_name = given_name (parse_name (r_name r)),
               p_surname = surname (parse_name (r_name r)),
               p_maiden_name = maiden_name (parse_name (r_name r)), p_nickname = None,
               p_gender = r_gender r,
               p_birth_date =
                 (case approximate_birth_year r of
                    None \<Rightarrow> None
                  | Some y \<Rightarrow> if y = 0 then None else Some \<lparr>d_year = y, d_month = 1, d_day = 1\<rparr>),
               p_birth_place = None, p_death_date = None, p_death_place = None,
               p_biography = None, p_generation = g\<rparr>"
  have "resolve_person_reference e s r g np =
      Inr (Some (new_uuid e), (log_line ?w s)\<lparr>persons := persons s @ [?row]\<rparr>)"
    unfolding c create_pending_record_result [OF yr] by (simp add: log_line_def)
  then show "\<exists>row. resolve_person_reference e s r g np =
           Inr (Some (new_uuid e), (log_line ?w s)\<lparr>persons := persons s @ [row]\<rparr>) \<and>
         p_id row = new_uuid e \<and> p_status row = PENDING \<and>
         p_given_name row = given_name (parse_name (r_name r)) \<and>
         p_surname row = surname (parse_name (r_name r)) \<and>
         p_generation row = g"
    by (intro exI [of _ ?row]) simp
qed

lemma malformed_match_id_example:
  "is_valid (validate_person_reference (today_year (truncating_env 70))
     (reference_with_defaults ''John Smith'' PARENT (Some 1950))) \<and>
   good_candidates john_smith_1950 (reference_with_defaults ''John Smith'' PARENT (Some 1950)) \<noteq> [] \<and>
   parse_uuid (truncating_env 70) ''3f2a'' = None \<and>
   resolve_person_reference (truncating_env 70) john_smith_1950
      (reference_with_defaults ''John Smith'' PARENT (Some 1950)) 2 None =
     Inr (Some 70,
          \<lparr>persons =
             [(person_with_defaults 10 ''John'' ''Smith'')
                \<lparr>p_status := COMPLETE,
                 p_birth_date := Some \<lparr>d_year = 1950, d_month = 1, d_day = 1\<rparr>\<rparr>,
              (person_with_defaults 70 ''John'' ''Smith'')
                \<lparr>p_birth_date := Some \<lparr>d_year = 1950, d_month = 1, d_day = 1\<rparr>,
                 p_generation := 2\<rparr>],
           child_links = [], spouse_links = [], creation_queue = [],
           log = [Warn_invalid_uuid ''3f2a'' ''John Smith'']\<rparr>)"
proof -
  let ?r = "reference_with_defaults ''John Smith'' PARENT (Some 1950)"
  have v: "is_valid (validate_person_reference (today_year (truncating_env 70)) ?r)"
    by (simp add: truncating_env_def John_Smith_1950_valid)
  have c: "good_candidates john_smith_1950 ?r \<noteq> []"
    by (simp add: John_Smith_is_candidate)
  have d: "is_duplicate (check_duplicate (truncating_env 70) john_smith_1950 ?r 2 None
             (map fst (take 5 (good_candidates john_smith_1950 ?r))))"
    "matched_person_id (check_duplicate (truncating_env 70) john_smith_1950 ?r 2 None
             (map fst (take 5 (good_candidates john_smith_1950 ?r)))) = Some ''3f2a''"
    "''3f2a'' \<noteq> []"
    by (simp_all add: truncating_env_def)
  have n: "parse_uuid (truncating_env 70) ''3f2a'' = None"
    by (simp add: truncating_env_def)
  from malformed_match_id_falls_through [OF v c d] n
  have "resolve_person_reference (truncating_env 70) john_smith_1950 ?r 2 None =
      create_pending_record (truncating_env 70)
        (log_line (Warn_invalid_uuid ''3f2a'' (r_name ?r)) john_smith_1950) ?r 2"
    by blast
  also have "\<dots> =
     Inr (Some 70,
          \<lparr>persons =
             [(person_with_defaults 10 ''John'' ''Smith'')
                \<lparr>p_status := COMPLETE,
                 p_birth_date := Some \<lparr>d_year = 1950, d_month = 1, d_day = 1\<rparr>\<rparr>,
              (person_with_defaults 70 ''John'' ''Smith'')
                \<lparr>p_birth_date := Some \<lparr>d_year = 1950, d_month = 1, d_day = 1\<rparr>,
                 p_generation := 2\<rparr>],
           child_links = [], spouse_links = [], creation_queue = [],
           log = [Warn_invalid_uuid ''3f2a'' ''John Smith'']\<rparr>)"
    by (simp add: create_pending_record_def reference_with_defaults_def truncating_env_def
        parse_name_John_Smith year_truthy_def first_of_january_def create_person_def
        log_line_def john_smith_1950_def empty_store_def person_with_defaults_def Let_def)
  finally show ?thesis using v c n by simp
qed

text \<open>
  The record of John Smith, born 1950, is a candidate for a reference to a John Smith born
  in the year -1: the texts "-4" and "2" enclose "1950", and the names alone score 0.5.
\<close>

lemma John_Smith_negative_year_is_candidate:
  "good_candidates john_smith_1950 (reference_with_defaults ''John Smith'' PARENT (Some (- 1))) =
     [((person_with_defaults 10 ''John'' ''Smith'')
         \<lparr>p_status := COMPLETE,
          p_birth_date := Some \<lparr>d_year = 1950, d_month = 1, d_day = 1\<rparr>\<rparr>, 1 / 2)]"
proof -
  let ?p = "(person_with_defaults 10 ''John'' ''Smith'')
         \<lparr>p_status := COMPLETE,
          p_birth_date := Some \<lparr>d_year = 1950, d_month = 1, d_day = 1\<rparr>\<rparr>"
  let ?r = "reference_with_defaults ''John Smith'' PARENT (Some (- 1))"
  have like: "ilike_contains ''John'' ''John''"
    by (simp add: ilike_contains_def sql_lower_char_def)
  have y3: "\<And>m d. birth_year_between (Some \<lparr>d_year = 1950, d_month = m, d_day = d\<rparr>) (- 1) 3"
    by (simp add: birth_year_between_def strftime_Y_def str_int_def str_nat.simps Let_def
        less_eq_char_def)
  have y5: "\<And>m d. birth_year_between (Some \<lparr>d_year = 1950, d_month = m, d_day = d\<rparr>) (- 1) 5"
    by (simp add: birth_year_between_def strftime_Y_def str_int_def str_nat.simps Let_def
        less_eq_char_def)
  have f: "find_candidates john_smith_1950 ?r = [?p]"
    by (simp add: find_candidates_def search_similar_def search_by_given_name_and_birth_year_def
        john_smith_1950_def empty_store_def person_with_defaults_def reference_with_defaults_def
        parse_name_John_Smith like y3 y5 Let_def)
  have h: "heuristic_match_score ''John Smith'' (Some (- 1)) ''John Smith'' (Some 1950) = 1 / 2"
    unfolding score_eval by (simp add: score_simps parse_name_John_Smith)
  have c: "candidate_score john_smith_1950 ?r ?p = 1 / 2"
    unfolding candidate_score_def float_literals Let_def
    by (simp add: person_with_defaults_def reference_with_defaults_def h)
  show ?thesis
    unfolding good_candidates_def f list.map c float_literals by simp
qed

text \<open>
  C2 at a reference with a negative birth year.  The store holds John Smith, born 1950; the
  reference is to a John Smith born in the year -1.  The texts "-4" and "2" enclose "1950",
  so the search finds the record, and it scores 0.5.  The oracle reports a duplicate under
  an id that is no UUID.  The resolution falls through to the block that creates the Pending
  record, where \<open>date(-1, 1, 1)\<close> raises \<open>ValueError\<close>: the resolution raises, and no Pending
  person is created.
\<close>

theorem malformed_match_id_negative_year_raises:
  "is_valid (validate_person_reference (today_year (truncating_env 70))
     (reference_with_defaults ''John Smith'' PARENT (Some (- 1)))) \<and>
   good_candidates john_smith_1950 (reference_with_defaults ''John Smith'' PARENT (Some (- 1)))
     \<noteq> [] \<and>
   check_duplicate (truncating_env 70) john_smith_1950
     (reference_with_defaults ''John Smith'' PARENT (Some (- 1))) 2 None
     (map fst (take 5 (good_candidates john_smith_1950
        (reference_with_defaults ''John Smith'' PARENT (Some (- 1)))))) =
     \<lparr>is_duplicate = True, matched_person_id = Some ''3f2a''\<rparr> \<and>
   parse_uuid (truncating_env 70) ''3f2a'' = None \<and>
   resolve_person_reference (truncating_env 70) john_smith_1950
     (reference_with_defaults ''John Smith'' PARENT (Some (- 1))) 2 None = Inl ValueError"
proof -
  let ?r = "reference_with_defaults ''John Smith'' PARENT (Some (- 1))"
  have v: "is_valid (validate_person_reference (today_year (truncating_env 70)) ?r)"
    by (simp add: truncating_env_def valid_reference_iff reference_with_defaults_def
        year_truthy_def strip_def py_isspace_def)
  have c: "good_candidates john_smith_1950 ?r \<noteq> []"
    by (simp add: John_Smith_negative_year_is_candidate)
  have d: "check_duplicate (truncating_env 70) john_smith_1950 ?r 2 None
      (map fst (take 5 (good_candidates john_smith_1950 ?r))) =
      \<lparr>is_duplicate = True, matched_person_id = Some ''3f2a''\<rparr>"
    by (simp add: truncating_env_def)
  have n: "parse_uuid (truncating_env 70) ''3f2a'' = None"
    by (simp add: truncating_env_def)
  have "resolve_person_reference (truncating_env 70) john_smith_1950 ?r 2 None =
      create_pending_record (truncating_env 70)
        (log_line (Warn_invalid_uuid ''3f2a'' (r_name ?r)) john_smith_1950) ?r 2"
    using resolve_match [OF v c, of 2 None "''3f2a''"] d n by simp
  also have "\<dots> = Inl ValueError"
    by (rule create_pending_record_raises [of _ "- 1"])
      (simp_all add: reference_with_defaults_def)
  finally show ?thesis using v c d n by simp
qed

section \<open>Properties of the merge of duplicate parents\<close>

subsection \<open>The rows that name the dropped record\<close>























subsection \<open>The parents of a child after a further parent is linked\<close>






subsection \<open>The household of the worked examples\<close>



lemmas link_eval = link_parent_def check_and_merge_duplicate_parents_def merge_persons_def
  merge_updates_def probable_duplicate_def spouse_has_surname_def get_spouses_def
  link_exists_def get_parent_count_def get_parents_def get_children_def get_by_id_def
  reassign_all_parent_links_def reassign_parent_def reassign_all_child_links_def
  reassign_child_def reassign_spouse_links_def reassign_spouse_def delete_all_for_person_def
  delete_link_def create_link_def update_person_def delete_person_def enqueue_def
  log_line_def str_truthy_def quiet_env_def person_with_defaults_def lower_def py_lower_def
  Let_def





lemma Mary_Jones_merged_with_grandparents:
  "child_links (link_parent (quiet_env 70) jones_household_with_grandparents 30 50) =
     [(10, 30), (20, 30), (11, 10), (12, 10), (51, 10), (52, 10)]"
  by (simp add: link_eval jones_household_with_grandparents_def jones_household_def
      parse_name_Mary_Jones)

subsection \<open>The merge invariant\<close>


text \<open>
  The record that is kept takes over the parents of the record that is dropped, so it can
  end with more than two parents of its own: here both records of Mary Jones have two
  parents, and the kept one ends with four.
\<close>

lemma kept_record_inherits_parents:
  "get_parents (child_links (link_parent (quiet_env 70) jones_household_with_grandparents 30 50)) 10
     = [11, 12, 51, 52]"
  unfolding Mary_Jones_merged_with_grandparents by (simp add: get_parents_def)



end
